theory Spec2Isabelle
  imports Complex_Main
begin

section \<open>Dates, times and errors\<close>

text \<open>
  Python raises exceptions; the model returns them as values of \<open>error\<close> on the left of a
  sum. A calendar date is its proleptic Gregorian ordinal (\<open>date.toordinal()\<close>: day 1 is
  Monday 0001-01-01), so \<open>today - timedelta(days=n)\<close> is a subtraction on \<open>int\<close> and
  \<open>weekday()\<close> is \<open>(ordinal + 6) mod 7\<close> (Monday is 0, Sunday is 6). The finite range of
  Python's \<open>date\<close> (years 1 to 9999) is not part of the model. Prices and the
  strategy's parameters are finite Python floats, each standing here for the real number
  it denotes (a parameter given as an \<open>int\<close>, like the defaults 10000, 300 and 100,
  for the float of the same value); the arithmetic on them is that of binary64, modelled
  below.
\<close>

type_synonym date = int

datatype error =
    ValueError_missing_columns
  | ValueError_no_levels date
  | TypeError
  | KeyError
  | ZeroDivisionError
  | RuntimeError
  | LoginFailed

definition weekday :: "date \<Rightarrow> int" where
  "weekday d = (d + 6) mod 7"

record datetime =
  day_ordinal :: date
  hour :: nat
  minute :: nat
  second :: nat
  microsecond :: nat

definition date_of :: "datetime \<Rightarrow> date" where
  "date_of t = day_ordinal t"

text \<open>
  The ordinal of a calendar date, as the standard library computes it; it is used to
  write concrete dates.
\<close>

definition is_leap :: "int \<Rightarrow> bool" where
  "is_leap y = (y mod 4 = 0 \<and> (y mod 100 \<noteq> 0 \<or> y mod 400 = 0))"

definition days_before_year :: "int \<Rightarrow> int" where
  "days_before_year year =
     (let y = year - 1 in y * 365 + y div 4 - y div 100 + y div 400)"

definition days_before_month :: "int \<Rightarrow> nat \<Rightarrow> int" where
  "days_before_month year month =
     [0, 0, 31, 59, 90, 120, 151, 181, 212, 243, 273, 304, 334] ! month
       + (if 2 < month \<and> is_leap year then 1 else 0)"

definition ymd2ord :: "int \<Rightarrow> nat \<Rightarrow> int \<Rightarrow> date" where
  "ymd2ord year month day = days_before_year year + days_before_month year month + day"


section \<open>Binary64 arithmetic\<close>

text \<open>
  Rounding a real to the nearest integer, a tie going to the even neighbour.
\<close>

definition py_round :: "real \<Rightarrow> int" where
  "py_round x =
     (let f = \<lfloor>x\<rfloor>; d = x - of_int f
      in if d < 1 / 2 then f
         else if 1 / 2 < d then f + 1
         else if even f then f else f + 1)"

text \<open>
  A Python float is an IEEE 754 binary64 value: a finite number, an infinity or a NaN.
  The two zeros are not told apart: they compare equal, and dividing by either raises.
\<close>

datatype pyfloat = Fin real | PInf | NInf | NaN

text \<open>
  The result of an operation is its exact result rounded to the nearest value with a
  53-bit significand, a tie going to the even significand. Below \<open>2 ^ -1022\<close> the spacing
  stays that of the subnormal numbers; a result that rounds to \<open>2 ^ 1024\<close> or beyond is an
  infinity.
\<close>

definition float_exponent :: "real \<Rightarrow> int" where
  "float_exponent x = max \<lfloor>log 2 \<bar>x\<bar>\<rfloor> (- 1022)"

definition round_to_double :: "real \<Rightarrow> real" where
  "round_to_double x =
     (if x = 0 then 0
      else
        (let ulp = 2 powi (float_exponent x - 52)
         in of_int (py_round (x / ulp)) * ulp))"

definition fl :: "real \<Rightarrow> pyfloat" where
  "fl x =
     (let r = round_to_double x
      in if 2 ^ 1024 \<le> r then PInf
         else if r \<le> - (2 ^ 1024) then NInf
         else Fin r)"

definition float_sign :: "pyfloat \<Rightarrow> int" where
  "float_sign a =
     (case a of
        Fin x \<Rightarrow> (if 0 < x then 1 else if x < 0 then - 1 else 0)
      | PInf \<Rightarrow> 1
      | NInf \<Rightarrow> - 1
      | NaN \<Rightarrow> 0)"

definition float_inf :: "int \<Rightarrow> pyfloat" where
  "float_inf sg = (if 0 < sg then PInf else NInf)"

definition float_neg :: "pyfloat \<Rightarrow> pyfloat" where
  "float_neg a = (case a of Fin x \<Rightarrow> Fin (- x) | PInf \<Rightarrow> NInf | NInf \<Rightarrow> PInf | NaN \<Rightarrow> NaN)"

definition float_abs :: "pyfloat \<Rightarrow> pyfloat" where
  "float_abs a = (case a of Fin x \<Rightarrow> Fin \<bar>x\<bar> | PInf \<Rightarrow> PInf | NInf \<Rightarrow> PInf | NaN \<Rightarrow> NaN)"

definition float_mul :: "pyfloat \<Rightarrow> pyfloat \<Rightarrow> pyfloat" where
  "float_mul a b =
     (if a = NaN \<or> b = NaN then NaN
      else
        (case (a, b) of
           (Fin x, Fin y) \<Rightarrow> fl (x * y)
         | _ \<Rightarrow>
             if float_sign a = 0 \<or> float_sign b = 0 then NaN
             else float_inf (float_sign a * float_sign b)))"

definition float_add :: "pyfloat \<Rightarrow> pyfloat \<Rightarrow> pyfloat" where
  "float_add a b =
     (if a = NaN \<or> b = NaN then NaN
      else
        (case (a, b) of
           (Fin x, Fin y) \<Rightarrow> fl (x + y)
         | (Fin x, _) \<Rightarrow> b
         | (_, Fin y) \<Rightarrow> a
         | _ \<Rightarrow> if a = b then a else NaN))"

definition float_sub :: "pyfloat \<Rightarrow> pyfloat \<Rightarrow> pyfloat" where
  "float_sub a b = float_add a (float_neg b)"

text \<open>The quotient by a divisor that is not zero, and \<open>a / b\<close>, which raises on zero.\<close>

definition float_quot :: "pyfloat \<Rightarrow> pyfloat \<Rightarrow> pyfloat" where
  "float_quot a b =
     (if a = NaN \<or> b = NaN then NaN
      else
        (case (a, b) of
           (Fin x, Fin y) \<Rightarrow> fl (x / y)
         | (Fin x, _) \<Rightarrow> Fin 0
         | (_, Fin y) \<Rightarrow> float_inf (float_sign a * float_sign b)
         | _ \<Rightarrow> NaN))"

definition float_truediv :: "pyfloat \<Rightarrow> pyfloat \<Rightarrow> error + pyfloat" where
  "float_truediv a b = (if b = Fin 0 then Inl ZeroDivisionError else Inr (float_quot a b))"

text \<open>\<open>a <= b\<close>: false as soon as one side is a NaN.\<close>

definition float_le :: "pyfloat \<Rightarrow> pyfloat \<Rightarrow> bool" where
  "float_le a b =
     (case (a, b) of
        (NaN, _) \<Rightarrow> False
      | (_, NaN) \<Rightarrow> False
      | (Fin x, Fin y) \<Rightarrow> x \<le> y
      | (NInf, _) \<Rightarrow> True
      | (_, PInf) \<Rightarrow> True
      | _ \<Rightarrow> False)"

text \<open>
  The built-in \<open>round(x, 2)\<close> of a float: the exact value of \<open>x\<close> is rounded to two
  decimal places, a tie going to the even neighbour, and the float nearest to that
  decimal is returned; an infinity and a NaN round to themselves.
\<close>

definition py_round2 :: "pyfloat \<Rightarrow> pyfloat" where
  "py_round2 a =
     (case a of
        Fin x \<Rightarrow> fl (of_int (py_round (x * 100)) / 100)
      | _ \<Rightarrow> a)"

section \<open>The breakout strategy (stretegies/yesterday_high_low.py)\<close>

definition get_previous_trading_day :: "date \<Rightarrow> date" where
  "get_previous_trading_day today_d =
     (if weekday today_d = 0 then today_d - 3
      else if weekday today_d = 6 then today_d - 2
      else today_d - 1)"

datatype side = BUY | SELL

datatype decision =
  NO_TRADE | INIT_DAY | BLOCKED | C1 | C2 | INVALIDATED | REJECTED | SIGNAL

text \<open>
  A candle is a dictionary in the source. The aggregator's in-progress candle has the
  keys of \<open>candle\<close> (\<open>last_update\<close> only after the first update); closing it adds the
  keys of \<open>closed_candle\<close>.
\<close>

record candle =
  open_price :: real
  high :: real
  low :: real
  close :: real
  volume :: nat
  start_time :: datetime
  last_update :: "datetime option"

record closed_candle = candle +
  candle_epic :: string
  end_time :: datetime
  closed_at :: datetime

text \<open>
  The levels file, as \<open>pd.read_csv\<close> returns it: the column names and the rows. A row's
  \<open>trading_day\<close> is the date that its \<open>%Y-%m-%d\<close> text denotes.
\<close>

record levels_row =
  trading_day :: date
  high_bid :: real
  low_bid :: real

record levels_csv =
  columns :: "string list"
  rows :: "levels_row list"

record strategy =
  epic :: string
  account_balance :: real
  risk_percent :: real
  tp_pips :: real
  pip_size :: real
  contract_size :: real
  today :: "date option"
  traded_today :: bool
  y_high :: "real option"
  y_low :: "real option"
  c1 :: "closed_candle option"
  c2 :: "closed_candle option"
  direction :: "side option"

record order =
  order_epic :: string
  order_direction :: "side option"
  order_size :: pyfloat
  orderType :: string
  level :: real
  stopLevel :: real
  profitLevel :: pyfloat

text \<open>The returned dictionary, without its human-readable \<open>reason\<close> text.\<close>

record result =
  result_time :: datetime
  decision :: decision
  order :: "order option"

text \<open>
  The constructor stores \<open>risk_percent / 100\<close>, a float division that cannot overflow.
\<close>

definition init_strategy :: "string \<Rightarrow> real \<Rightarrow> real \<Rightarrow> real \<Rightarrow> real \<Rightarrow> real \<Rightarrow> strategy" where
  "init_strategy e balance risk tp pip csize =
     \<lparr>epic = e, account_balance = balance, risk_percent = round_to_double (risk / 100),
      tp_pips = tp, pip_size = pip, contract_size = csize, today = None,
      traded_today = False,
      y_high = None, y_low = None, c1 = None, c2 = None, direction = None\<rparr>"

definition reset_setup :: "strategy \<Rightarrow> strategy" where
  "reset_setup s = s\<lparr>c1 := None, c2 := None, direction := None\<rparr>"

definition load_yesterday_levels :: "levels_csv \<Rightarrow> strategy \<Rightarrow> date \<Rightarrow> error + strategy" where
  "load_yesterday_levels df s trading_date =
     (let prev_day = get_previous_trading_day trading_date
      in if \<not> {''trading_day'', ''high_bid'', ''low_bid''} \<subseteq> set (columns df)
         then Inl ValueError_missing_columns
         else
           (let row = filter (\<lambda>r. trading_day r = prev_day) (rows df)
            in if row = [] then Inl (ValueError_no_levels prev_day)
               else Inr (reset_setup
                     (s\<lparr>y_high := Some (high_bid (last row)),
                        y_low := Some (low_bid (last row)),
                        today := Some trading_date,
                        traded_today := False\<rparr>))))"

text \<open>
  \<open>risk_amount / (dist * self.contract_size)\<close> raises \<open>ZeroDivisionError\<close> when the
  product is zero; nothing in the class guards the contract size.
\<close>

definition calc_size :: "strategy \<Rightarrow> real \<Rightarrow> real \<Rightarrow> error + pyfloat" where
  "calc_size s entry stop =
     (let risk_amount = float_mul (Fin (account_balance s)) (Fin (risk_percent s));
          dist = float_abs (float_sub (Fin entry) (Fin stop))
      in if float_le dist (Fin 0) then Inr (Fin 0)
         else
           (case float_truediv risk_amount (float_mul dist (Fin (contract_size s))) of
              Inl err \<Rightarrow> Inl err
            | Inr q \<Rightarrow> Inr (py_round2 q)))"

definition on_candle_close ::
  "levels_csv \<Rightarrow> strategy \<Rightarrow> closed_candle \<Rightarrow> error + (strategy \<times> result)" where
  "on_candle_close df s cndl =
     (let res = \<lparr>result_time = start_time cndl, decision = NO_TRADE, order = None\<rparr>;
          candle_date = date_of (start_time cndl)
      in
      if today s \<noteq> Some candle_date then
        (case load_yesterday_levels df s candle_date of
           Inl e \<Rightarrow> Inl e
         | Inr s' \<Rightarrow> Inr (s', res\<lparr>decision := INIT_DAY\<rparr>))
      else if traded_today s then Inr (s, res\<lparr>decision := BLOCKED\<rparr>)
      else if c1 s = None then
        (case y_high s of
           None \<Rightarrow> Inl TypeError
         | Some yh \<Rightarrow>
             if yh < close cndl
             then Inr (s\<lparr>c1 := Some cndl, direction := Some BUY\<rparr>, res\<lparr>decision := C1\<rparr>)
             else
               (case y_low s of
                  None \<Rightarrow> Inl TypeError
                | Some yl \<Rightarrow>
                    if close cndl < yl
                    then Inr (s\<lparr>c1 := Some cndl, direction := Some SELL\<rparr>,
                              res\<lparr>decision := C1\<rparr>)
                    else Inr (s, res)))
      else if c2 s = None then
        (let invalidated = Inr (reset_setup s, res\<lparr>decision := INVALIDATED\<rparr>)
         in
         if direction s = Some BUY then
           (case y_high s of
              None \<Rightarrow> Inl TypeError
            | Some yh \<Rightarrow>
                if yh < close cndl then Inr (s\<lparr>c2 := Some cndl\<rparr>, res\<lparr>decision := C2\<rparr>)
                else invalidated)
         else if direction s = Some SELL then
           (case y_low s of
              None \<Rightarrow> Inl TypeError
            | Some yl \<Rightarrow>
                if close cndl < yl then Inr (s\<lparr>c2 := Some cndl\<rparr>, res\<lparr>decision := C2\<rparr>)
                else invalidated)
         else invalidated)
      else
        (case (c1 s, c2 s) of
           (Some k1, Some k2) \<Rightarrow>
             (let entry = open_price cndl;
                  dir = direction s;
                  sl = (if dir = Some BUY then min (low k1) (low k2)
                        else max (high k1) (high k2));
                  tp = (if dir = Some BUY
                        then float_add (Fin entry) (float_mul (Fin (tp_pips s)) (Fin (pip_size s)))
                        else float_sub (Fin entry) (float_mul (Fin (tp_pips s)) (Fin (pip_size s))))
              in
              case calc_size s entry sl of
                Inl e \<Rightarrow> Inl e
              | Inr sz \<Rightarrow>
                  if float_le sz (Fin 0) then Inr (reset_setup s, res\<lparr>decision := REJECTED\<rparr>)
                  else Inr (reset_setup (s\<lparr>traded_today := True\<rparr>),
                            res\<lparr>decision := SIGNAL,
                                order := Some \<lparr>order_epic = epic s, order_direction = dir,
                                   order_size = sz, orderType = ''STOP'', level = entry,
                                   stopLevel = sl, profitLevel = tp\<rparr>\<rparr>))
         | _ \<Rightarrow> Inl TypeError))"

text \<open>Feeding a run of closed candles to one strategy instance, in order.\<close>

fun on_candles ::
  "levels_csv \<Rightarrow> strategy \<Rightarrow> closed_candle list \<Rightarrow> error + (strategy \<times> result list)" where
  "on_candles df s [] = Inr (s, [])"
| "on_candles df s (k # ks) =
     (case on_candle_close df s k of
        Inl e \<Rightarrow> Inl e
      | Inr (s', r) \<Rightarrow>
          (case on_candles df s' ks of
             Inl e \<Rightarrow> Inl e
           | Inr (s'', rs) \<Rightarrow> Inr (s'', r # rs)))"

subsection \<open>Example data\<close>

text \<open>
  The constructor's defaults: balance 10000, 2 percent risk, 300 pips of 0.01 (the float
  that the literal denotes), contract size 100.
\<close>

definition ex_strategy :: strategy where
  "ex_strategy = init_strategy ''GOLD'' 10000 2 300 (round_to_double (1 / 100)) 100"

definition ex_levels :: levels_csv where
  "ex_levels =
     \<lparr>columns = [''trading_day'', ''high_bid'', ''low_bid''],
      rows = [\<lparr>trading_day = ymd2ord 2024 1 1, high_bid = 2050, low_bid = 2030\<rparr>]\<rparr>"

definition at_time :: "date \<Rightarrow> nat \<Rightarrow> nat \<Rightarrow> datetime" where
  "at_time d h m = \<lparr>day_ordinal = d, hour = h, minute = m, second = 0, microsecond = 0\<rparr>"

definition ex_candle :: "nat \<Rightarrow> nat \<Rightarrow> real \<Rightarrow> real \<Rightarrow> real \<Rightarrow> real \<Rightarrow> closed_candle" where
  "ex_candle h m o_p h_p l_p c_p =
     \<lparr>open_price = o_p, high = h_p, low = l_p, close = c_p, volume = 10,
      start_time = at_time (ymd2ord 2024 1 2) h m, last_update = None,
      candle_epic = ''GOLD'', end_time = at_time (ymd2ord 2024 1 2) h (m + 1),
      closed_at = at_time (ymd2ord 2024 1 2) h (m + 1)\<rparr>"

text \<open>After the day's levels are loaded: high 2050, low 2030, nothing traded yet.\<close>

definition ex_loaded :: strategy where
  "ex_loaded = ex_strategy\<lparr>today := Some (ymd2ord 2024 1 2), y_high := Some 2050,
                 y_low := Some 2030\<rparr>"

text \<open>A breakout above the high (C1), its acceptance (C2), and both recorded.\<close>

definition ex_c1 :: closed_candle where
  "ex_c1 = ex_candle 9 1 2049 2056 2048 2055"

definition ex_c2 :: closed_candle where
  "ex_c2 = ex_candle 9 2 2055 2057 2049.5 2056"

definition ex_armed :: strategy where
  "ex_armed = ex_loaded\<lparr>c1 := Some ex_c1, c2 := Some ex_c2, direction := Some BUY\<rparr>"

definition ex_c3 :: closed_candle where
  "ex_c3 = ex_candle 9 3 2058 2059 2057 2058.5"

text \<open>The order of that entry; its size is the float nearest to 0.2.\<close>

definition ex_order :: order where
  "ex_order = \<lparr>order_epic = ''GOLD'', order_direction = Some BUY,
                order_size = Fin (3602879701896397 / 2 ^ 54), orderType = ''STOP'',
                level = 2058, stopLevel = 2048, profitLevel = Fin 2061\<rparr>"

definition ex_locked :: strategy where
  "ex_locked = ex_loaded\<lparr>traded_today := True\<rparr>"

text \<open>
  The same setup with the C1 low at 1658 and at 1058: against an entry of 2058 the stop
  distances are 400 and 1000. A candle that opens on the stop of 2048.
\<close>

definition ex_c1_wide :: closed_candle where
  "ex_c1_wide = ex_candle 9 1 2049 2056 1658 2055"

definition ex_c1_far :: closed_candle where
  "ex_c1_far = ex_candle 9 1 2049 2056 1058 2055"

definition ex_wide :: strategy where
  "ex_wide = ex_loaded\<lparr>c1 := Some ex_c1_wide, c2 := Some ex_c2, direction := Some BUY\<rparr>"

definition ex_far :: strategy where
  "ex_far = ex_loaded\<lparr>c1 := Some ex_c1_far, c2 := Some ex_c2, direction := Some BUY\<rparr>"

definition ex_c3_on_stop :: closed_candle where
  "ex_c3_on_stop = ex_candle 9 3 2048 2059 2047 2058"

section \<open>The candle aggregator (utils/candle_aggregator.py)\<close>

text \<open>
  Naive datetimes compare field by field, and \<open>dt + timedelta(seconds=n)\<close> goes through
  the number of microseconds since midnight of day 0.
\<close>

definition wf_datetime :: "datetime \<Rightarrow> bool" where
  "wf_datetime t \<longleftrightarrow>
     hour t < 24 \<and> minute t < 60 \<and> second t < 60 \<and> microsecond t < 1000000"

definition dt_less :: "datetime \<Rightarrow> datetime \<Rightarrow> bool" where
  "dt_less a b \<longleftrightarrow>
     day_ordinal a < day_ordinal b
     \<or> (day_ordinal a = day_ordinal b
        \<and> (hour a < hour b
           \<or> (hour a = hour b
              \<and> (minute a < minute b
                 \<or> (minute a = minute b
                    \<and> (second a < second b
                       \<or> (second a = second b \<and> microsecond a < microsecond b)))))))"

definition dt_micros :: "datetime \<Rightarrow> int" where
  "dt_micros t =
     (((day_ordinal t * 24 + int (hour t)) * 60 + int (minute t)) * 60 + int (second t))
       * 1000000 + int (microsecond t)"

definition dt_of_micros :: "int \<Rightarrow> datetime" where
  "dt_of_micros n =
     \<lparr>day_ordinal = n div 86400000000,
      hour = nat (n div 3600000000 mod 24),
      minute = nat (n div 60000000 mod 60),
      second = nat (n div 1000000 mod 60),
      microsecond = nat (n mod 1000000)\<rparr>"

definition add_seconds :: "datetime \<Rightarrow> int \<Rightarrow> datetime" where
  "add_seconds t n = dt_of_micros (dt_micros t + n * 1000000)"

text \<open>
  A tick is the dictionary that the streaming client builds: \<open>epic\<close>, \<open>bid\<close> and
  \<open>timestamp\<close> are read with \<open>tick[...]\<close>, \<open>received_at\<close> with \<open>tick.get\<close>.
\<close>

record tick =
  tick_epic :: string
  bid :: real
  ask :: "real option"
  bid_qty :: "real option"
  ask_qty :: "real option"
  timestamp :: datetime
  received_at :: "datetime option"

record aggregator =
  resolution_seconds :: "nat option"
  candle_data :: "string \<rightharpoonup> candle"
  current_candle_start :: "string \<rightharpoonup> datetime"
  last_candle :: "string \<rightharpoonup> closed_candle"
  last_price :: "string \<rightharpoonup> real"
  last_tick :: "string \<rightharpoonup> tick"
  tick_count :: nat
  last_tick_time :: "datetime option"
  last_candle_time :: "datetime option"

definition get_resolution_second :: "string \<Rightarrow> nat option" where
  "get_resolution_second resolution =
     map_of
       [(''MINUTE'', 60),
        (''MINUTE_5'', 300),
        (''MINUTE_15'', 900),
        (''MINUTE_30'', 1800),
        (''HOUR_1'', 3600),
        (''HOUR_4'', 14400),
        (''DAY_1'', 86400),
        (''WEEK_1'', 604800)] resolution"

definition init_aggregator :: "string \<Rightarrow> aggregator" where
  "init_aggregator resolution =
     \<lparr>resolution_seconds = get_resolution_second resolution,
      candle_data = Map.empty, current_candle_start = Map.empty, last_candle = Map.empty,
      last_price = Map.empty, last_tick = Map.empty, tick_count = 0,
      last_tick_time = None, last_candle_time = None\<rparr>"

text \<open>
  \<open>resolution_seconds\<close> is \<open>None\<close> for a name outside the table; comparing it with 60
  raises \<open>TypeError\<close>, and a resolution of 0 seconds would divide by zero.
\<close>

definition calculate_candle_start :: "aggregator \<Rightarrow> datetime \<Rightarrow> error + datetime" where
  "calculate_candle_start agg ts =
     (case resolution_seconds agg of
        None \<Rightarrow> Inl TypeError
      | Some r \<Rightarrow>
          if 60 \<le> r then
            (let minutes = r div 60
             in Inr (ts\<lparr>second := 0, microsecond := 0,
                        minute := minute ts - minute ts mod minutes\<rparr>))
          else if r = 0 then Inl ZeroDivisionError
          else Inr (ts\<lparr>microsecond := 0, second := second ts - second ts mod r\<rparr>))"

definition start_new_candle :: "aggregator \<Rightarrow> string \<Rightarrow> real \<Rightarrow> datetime \<Rightarrow> aggregator" where
  "start_new_candle agg e price start =
     agg\<lparr>candle_data := (candle_data agg)(e \<mapsto>
            \<lparr>open_price = price, high = price, low = price, close = price, volume = 1,
             start_time = start, last_update = None\<rparr>),
         current_candle_start := (current_candle_start agg)(e \<mapsto> start)\<rparr>"

text \<open>
  Closing copies the in-progress candle and adds \<open>epic\<close>, \<open>end_time\<close> and \<open>closed_at\<close>.
  The hand-over to the CSV store is left out: what it raises is caught, and it changes
  nothing of the aggregator. \<open>now\<close> is the clock reading of \<open>datetime.now()\<close>.
\<close>

definition close_candle ::
  "datetime \<Rightarrow> aggregator \<Rightarrow> string \<Rightarrow> tick \<Rightarrow> error + (aggregator \<times> closed_candle)" where
  "close_candle now agg e tk =
     (case candle_data agg e of
        None \<Rightarrow> Inl KeyError
      | Some cd \<Rightarrow>
          (case current_candle_start agg e of
             None \<Rightarrow> Inl KeyError
           | Some cur \<Rightarrow>
               (case resolution_seconds agg of
                  None \<Rightarrow> Inl TypeError
                | Some r \<Rightarrow>
                    (let cndl =
                       \<lparr>open_price = open_price cd, high = high cd, low = low cd,
                        close = close cd, volume = volume cd, start_time = start_time cd,
                        last_update = last_update cd, candle_epic = e,
                        end_time = add_seconds cur (int r),
                        closed_at = (case received_at tk of Some t \<Rightarrow> t | None \<Rightarrow> now)\<rparr>
                     in Inr (agg\<lparr>last_candle := (last_candle agg)(e \<mapsto> cndl),
                                 last_candle_time := Some (end_time cndl)\<rparr>, cndl)))))"

definition process_tick ::
  "datetime \<Rightarrow> aggregator \<Rightarrow> tick \<Rightarrow> error + (aggregator \<times> closed_candle option)" where
  "process_tick now agg tk =
     (let e = tick_epic tk;
          bid_price = bid tk;
          ts = timestamp tk;
          agg1 = agg\<lparr>last_price := (last_price agg)(e \<mapsto> bid_price),
                      last_tick := (last_tick agg)(e \<mapsto> tk),
                      tick_count := tick_count agg + 1,
                      last_tick_time := Some now\<rparr>
      in
      case calculate_candle_start agg1 ts of
        Inl err \<Rightarrow> Inl err
      | Inr candle_start \<Rightarrow>
          (case candle_data agg1 e of
             None \<Rightarrow> Inr (start_new_candle agg1 e bid_price candle_start, None)
           | Some cd \<Rightarrow>
               (case current_candle_start agg1 e of
                  None \<Rightarrow> Inl KeyError
                | Some cur \<Rightarrow>
                    if dt_less cur candle_start then
                      (case close_candle now agg1 e tk of
                         Inl err \<Rightarrow> Inl err
                       | Inr (agg2, closed_cndl) \<Rightarrow>
                           Inr (start_new_candle agg2 e bid_price candle_start, Some closed_cndl))
                    else
                      Inr (agg1\<lparr>candle_data := (candle_data agg1)(e \<mapsto>
                             cd\<lparr>high := max (high cd) bid_price,
                                low := min (low cd) bid_price,
                                close := bid_price,
                                volume := volume cd + 1,
                                last_update := Some ts\<rparr>)\<rparr>, None))))"


text \<open>
  The bucket start in the specification's words: the largest multiple of the resolution
  that is not after the timestamp.
\<close>

definition floor_to_resolution :: "nat \<Rightarrow> datetime \<Rightarrow> datetime" where
  "floor_to_resolution r ts =
     dt_of_micros (dt_micros ts - dt_micros ts mod (int r * 1000000))"


definition agg_inv :: "aggregator \<Rightarrow> bool" where
  "agg_inv agg \<longleftrightarrow>
     (\<forall>e cd. candle_data agg e = Some cd \<longrightarrow> current_candle_start agg e = Some (start_time cd))"

text \<open>What a call returned, and the candle it left in progress for a symbol.\<close>

definition returned :: "error + (aggregator \<times> 'a) \<Rightarrow> error + 'a" where
  "returned res = (case res of Inl err \<Rightarrow> Inl err | Inr (agg, ret) \<Rightarrow> Inr ret)"

definition in_progress :: "string \<Rightarrow> error + (aggregator \<times> 'a) \<Rightarrow> candle option" where
  "in_progress e res = (case res of Inl err \<Rightarrow> None | Inr (agg, ret) \<Rightarrow> candle_data agg e)"

subsection \<open>Example ticks\<close>

definition ex_stamp :: "nat \<Rightarrow> nat \<Rightarrow> nat \<Rightarrow> datetime" where
  "ex_stamp h m s =
     \<lparr>day_ordinal = ymd2ord 2024 1 2, hour = h, minute = m, second = s, microsecond = 0\<rparr>"

definition ex_tick :: "nat \<Rightarrow> nat \<Rightarrow> nat \<Rightarrow> real \<Rightarrow> tick" where
  "ex_tick h m s b =
     \<lparr>tick_epic = ''GOLD'', bid = b, ask = Some (b + 1 / 2), bid_qty = None, ask_qty = None,
      timestamp = ex_stamp h m s,
      received_at = Some ((ex_stamp h m s)\<lparr>microsecond := 250000\<rparr>)\<rparr>"

definition ex_now :: datetime where
  "ex_now = \<lparr>day_ordinal = ymd2ord 2024 1 2, hour = 9, minute = 2, second = 0,
             microsecond = 300000\<rparr>"

text \<open>The aggregator after one tick at 09:00:05 with bid 100, at one-minute resolution.\<close>

definition ex_agg :: aggregator where
  "ex_agg =
     (init_aggregator ''MINUTE'')
       \<lparr>candle_data := [''GOLD'' \<mapsto> \<lparr>open_price = 100, high = 100, low = 100, close = 100,
            volume = 1, start_time = ex_stamp 9 0 0, last_update = None\<rparr>],
        current_candle_start := [''GOLD'' \<mapsto> ex_stamp 9 0 0],
        last_price := [''GOLD'' \<mapsto> 100],
        last_tick := [''GOLD'' \<mapsto> ex_tick 9 0 5 100],
        tick_count := 1,
        last_tick_time := Some ex_now\<rparr>"


section \<open>Session handling of the broker client (clients/capitap_client.py)\<close>

text \<open>
  Of the client only the session fields and the API key matter here. \<open>not self.cst\<close> holds
  for \<open>None\<close> and for the empty string. The two HTTP calls of \<open>login\<close> are outside the
  model: their outcome is the parameter \<open>resp\<close>, an exception or the \<open>CST\<close> and
  \<open>X-SECURITY-TOKEN\<close> response headers. \<open>now\<close> is \<open>datetime.now(timezone.utc)\<close>; the lock
  around the renewal is not modelled.
\<close>

record client =
  api_key :: string
  cst :: "string option"
  security_token :: "string option"
  session_expiry :: "datetime option"

record http_headers =
  X_CAP_API_KEY :: string
  CST :: "string option"
  X_SECURITY_TOKEN :: "string option"

definition is_falsy :: "string option \<Rightarrow> bool" where
  "is_falsy v \<longleftrightarrow> v = None \<or> v = Some []"

definition is_session_valid :: "datetime \<Rightarrow> client \<Rightarrow> bool" where
  "is_session_valid now c =
     (if is_falsy (cst c) \<or> is_falsy (security_token c) then False
      else
        (case session_expiry c of
           None \<Rightarrow> True
         | Some expiry \<Rightarrow> dt_less now (add_seconds expiry (- (5 * 60)))))"

definition login :: "datetime \<Rightarrow> error + (string \<times> string) \<Rightarrow> client \<Rightarrow> error + client" where
  "login now resp c =
     (case resp of
        Inl err \<Rightarrow> Inl err
      | Inr (t, st) \<Rightarrow>
          Inr (c\<lparr>cst := Some t, security_token := Some st,
                 session_expiry := Some (add_seconds now (23 * 3600))\<rparr>))"

definition renew_session :: "datetime \<Rightarrow> error + (string \<times> string) \<Rightarrow> client \<Rightarrow> error + client" where
  "renew_session now resp c = login now resp c"

definition ensure_valid_session ::
  "datetime \<Rightarrow> error + (string \<times> string) \<Rightarrow> client \<Rightarrow> error + client" where
  "ensure_valid_session now resp c =
     (if \<not> is_session_valid now c then renew_session now resp c else Inr c)"

definition session_headers :: "client \<Rightarrow> http_headers" where
  "session_headers c =
     \<lparr>X_CAP_API_KEY = api_key c, CST = cst c, X_SECURITY_TOKEN = security_token c\<rparr>"

definition headers ::
  "datetime \<Rightarrow> error + (string \<times> string) \<Rightarrow> client \<Rightarrow> error + (client \<times> http_headers)" where
  "headers now resp c =
     (case ensure_valid_session now resp c of
        Inl err \<Rightarrow> Inl err
      | Inr c' \<Rightarrow>
          if is_falsy (cst c') \<or> is_falsy (security_token c') then Inl RuntimeError
          else Inr (c', session_headers c'))"

definition get_websocket_headers ::
  "datetime \<Rightarrow> error + (string \<times> string) \<Rightarrow> client \<Rightarrow> error + (client \<times> http_headers)" where
  "get_websocket_headers now resp c =
     (case ensure_valid_session now resp c of
        Inl err \<Rightarrow> Inl err
      | Inr c' \<Rightarrow> Inr (c', session_headers c'))"

text \<open>
  The validity check in the specification's words: both tokens present and the current
  time strictly before the stored expiry less five minutes.
\<close>

definition session_valid_as_stated :: "datetime \<Rightarrow> client \<Rightarrow> bool" where
  "session_valid_as_stated now c \<longleftrightarrow>
     \<not> is_falsy (cst c) \<and> \<not> is_falsy (security_token c)
     \<and> (case session_expiry c of
          None \<Rightarrow> False
        | Some expiry \<Rightarrow> dt_less now (add_seconds expiry (- (5 * 60))))"

subsection \<open>Example sessions\<close>

definition ex_client :: client where
  "ex_client = \<lparr>api_key = ''key'', cst = None, security_token = None, session_expiry = None\<rparr>"

text \<open>Tokens without a stored expiry, and a session that expires at 09:05.\<close>

definition ex_no_expiry :: client where
  "ex_no_expiry = ex_client\<lparr>cst := Some ''cst-1'', security_token := Some ''tok-1''\<rparr>"

definition ex_session :: client where
  "ex_session = ex_no_expiry\<lparr>session_expiry := Some (ex_stamp 9 5 0)\<rparr>"

section \<open>Properties of the binary64 arithmetic\<close>

text \<open>
  A value between \<open>2 ^ e\<close> and \<open>2 ^ (e + 1)\<close> is rounded on the grid of spacing
  \<open>2 ^ (e - 52)\<close>; this is how the examples below are evaluated.
\<close>

lemma float_exponent_eval:
  assumes "2 powi e \<le> \<bar>x\<bar>" and "\<bar>x\<bar> < 2 powi (e + 1)"
  shows "float_exponent x = max e (- 1022)"
proof -
  have pos: "0 < \<bar>x\<bar>" using assms(1) by (smt (verit) zero_less_power_int)
  have p: "(2::real) powr of_int k = 2 powi k" for k by (simp add: powr_real_of_int')
  have "of_int e \<le> log 2 \<bar>x\<bar>"
    using assms(1) pos le_log_iff [of 2 "\<bar>x\<bar>" "of_int e"] by (simp only: p)
  moreover have "log 2 \<bar>x\<bar> < of_int (e + 1)"
    using assms(2) pos log_less_iff [of 2 "\<bar>x\<bar>" "of_int (e + 1)"] by (simp only: p)
  ultimately have "\<lfloor>log 2 \<bar>x\<bar>\<rfloor> = e" by (intro floor_unique) simp_all
  then show ?thesis by (simp add: float_exponent_def)
qed

lemma round_to_double_eval:
  assumes "- 1022 \<le> e" and "u = 2 powi (e - 52)"
    and "2 powi e \<le> \<bar>x\<bar>" and "\<bar>x\<bar> < 2 powi (e + 1)"
  shows "round_to_double x = of_int (py_round (x / u)) * u"
proof -
  have "x \<noteq> 0" using assms(3) by (smt (verit) zero_less_power_int abs_zero)
  moreover have "float_exponent x = e"
    using float_exponent_eval [OF assms(3,4)] assms(1) by simp
  ultimately show ?thesis by (simp add: round_to_double_def Let_def assms(2))
qed

lemma py_round_bounds:
  "\<bar>of_int (py_round y) - y\<bar> \<le> 1 / 2"
  by (auto simp: py_round_def Let_def)

lemma fl_finite:
  assumes "\<bar>round_to_double x\<bar> < 2 ^ 1024"
  shows "fl x = Fin (round_to_double x)"
  using assms by (auto simp: fl_def Let_def)

lemma fl_eval:
  assumes "- 1022 \<le> e" and "u = 2 powi (e - 52)"
    and "2 powi e \<le> \<bar>x\<bar>" and "\<bar>x\<bar> < 2 powi (e + 1)"
    and "v = of_int (py_round (x / u)) * u" and "\<bar>v\<bar> < 2 ^ 1024"
  shows "fl x = Fin v"
  using fl_finite [of x] round_to_double_eval [OF assms(1-4)] assms(5,6) by simp

lemma fl_zero: "fl 0 = Fin 0"
  by (simp add: fl_def round_to_double_def)

lemma float_fin_simps:
  "float_mul (Fin x) (Fin y) = fl (x * y)"
  "float_add (Fin x) (Fin y) = fl (x + y)"
  "float_sub (Fin x) (Fin y) = fl (x - y)"
  "float_quot (Fin x) (Fin y) = fl (x / y)"
  "float_abs (Fin x) = Fin \<bar>x\<bar>"
  "float_le (Fin x) (Fin y) \<longleftrightarrow> x \<le> y"
  "py_round2 (Fin x) = fl (of_int (py_round (x * 100)) / 100)"
  by (simp_all add: float_mul_def float_add_def float_sub_def float_neg_def float_quot_def
      float_abs_def float_le_def py_round2_def)

lemmas numeral_eval = power_int_def power_one_over inverse_eq_divide py_round_def Let_def

lemma round_to_double_subnormal:
  assumes "x \<noteq> 0" and "\<bar>x\<bar> < 2 powi (- 1022)"
  shows "round_to_double x = of_int (py_round (x / 2 powi (- 1074))) * 2 powi (- 1074)"
proof -
  have pos: "0 < \<bar>x\<bar>" using assms(1) by simp
  have p: "(2::real) powr of_int k = 2 powi k" for k by (simp add: powr_real_of_int')
  have "log 2 \<bar>x\<bar> < of_int (- 1022)"
    using assms(2) pos log_less_iff [of 2 "\<bar>x\<bar>" "of_int (- 1022)"] by (simp only: p)
  then have "\<lfloor>log 2 \<bar>x\<bar>\<rfloor> < - 1022" by (simp add: floor_less_iff)
  then have "float_exponent x = - 1022" by (simp add: float_exponent_def)
  then show ?thesis using assms(1) by (simp add: round_to_double_def Let_def)
qed

text \<open>
  At the ends of the range: \<open>2 ^ 1024\<close> is an infinity, half of the smallest subnormal
  number rounds to zero and one and a half of it to twice it.
\<close>

lemma fl_range:
  "fl (2 ^ 1024) = PInf"
  "fl (- (2 ^ 1024)) = NInf"
  "fl (1 / 2 ^ 1075) = Fin 0"
  "fl (3 / 2 ^ 1075) = Fin (2 / 2 ^ 1074)"
proof -
  have a: "round_to_double (2 ^ 1024) = 2 ^ 1024"
    by (subst round_to_double_eval [where e = 1024 and u = "2 ^ 972"])
       (simp_all add: numeral_eval)
  have b: "round_to_double (- (2 ^ 1024)) = - (2 ^ 1024)"
    by (subst round_to_double_eval [where e = 1024 and u = "2 ^ 972"])
       (simp_all add: numeral_eval)
  have c: "round_to_double (1 / 2 ^ 1075) = 0"
    by (subst round_to_double_subnormal) (simp_all add: numeral_eval)
  have d: "round_to_double (3 / 2 ^ 1075) = 2 / 2 ^ 1074"
    by (subst round_to_double_subnormal) (simp_all add: numeral_eval)
  show "fl (2 ^ 1024) = PInf" unfolding fl_def a by simp
  show "fl (- (2 ^ 1024)) = NInf" unfolding fl_def b by simp
  show "fl (1 / 2 ^ 1075) = Fin 0" unfolding fl_def c by simp
  show "fl (3 / 2 ^ 1075) = Fin (2 / 2 ^ 1074)" unfolding fl_def d by simp
qed

subsection \<open>The numbers of the examples\<close>

text \<open>
  The floats behind the literals 0.02 and 0.01, and the sums, products and quotients that
  the example entries go through.
\<close>

lemma ex_risk_percent: "round_to_double (1 / 50) = 5764607523034235 / 2 ^ 58"
  by (subst round_to_double_eval [where e = "- 6" and u = "1 / 2 ^ 58"])
     (simp_all add: numeral_eval)

lemma ex_pip_size: "round_to_double (1 / 100) = 5764607523034235 / 2 ^ 59"
  by (subst round_to_double_eval [where e = "- 7" and u = "1 / 2 ^ 59"])
     (simp_all add: numeral_eval)

lemma ex_risk_amount: "fl (10000 * (5764607523034235 / 2 ^ 58)) = Fin 200"
  by (rule fl_eval [where e = 7 and u = "1 / 2 ^ 45"]) (simp_all add: numeral_eval)

lemma ex_target:
  "fl (300 * (5764607523034235 / 2 ^ 59)) = Fin 3" "fl (2058 + 3) = Fin 2061"
   apply (rule fl_eval [where e = 1 and u = "1 / 2 ^ 51"]; simp add: numeral_eval)
  apply (rule fl_eval [where e = 11 and u = "1 / 2 ^ 41"]; simp add: numeral_eval)
  done

lemma ex_distances:
  "fl (2058 - 2048) = Fin 10" "fl (2058 - 1658) = Fin 400" "fl (2058 - 1058) = Fin 1000"
  "fl (100 - 99.5) = Fin (1 / 2)"
     apply (rule fl_eval [where e = 3 and u = "1 / 2 ^ 49"]; simp add: numeral_eval)
    apply (rule fl_eval [where e = 8 and u = "1 / 2 ^ 44"]; simp add: numeral_eval)
   apply (rule fl_eval [where e = 9 and u = "1 / 2 ^ 43"]; simp add: numeral_eval)
  apply (rule fl_eval [where e = "- 1" and u = "1 / 2 ^ 53"]; simp add: numeral_eval)
  done

lemma ex_products:
  "fl (10 * 100) = Fin 1000" "fl (400 * 100) = Fin 40000" "fl (1000 * 100) = Fin 100000"
  "fl (1 / 2 * 100) = Fin 50"
     apply (rule fl_eval [where e = 9 and u = "1 / 2 ^ 43"]; simp add: numeral_eval)
    apply (rule fl_eval [where e = 15 and u = "1 / 2 ^ 37"]; simp add: numeral_eval)
   apply (rule fl_eval [where e = 16 and u = "1 / 2 ^ 36"]; simp add: numeral_eval)
  apply (rule fl_eval [where e = 5 and u = "1 / 2 ^ 47"]; simp add: numeral_eval)
  done

lemma ex_quotients:
  "fl (200 / 1000) = Fin (3602879701896397 / 2 ^ 54)"
  "fl (200 / 40000) = Fin (5764607523034235 / 2 ^ 60)"
  "fl (200 / 100000) = Fin (1152921504606847 / 2 ^ 59)"
  "fl (200 / 50) = Fin 4"
     apply (rule fl_eval [where e = "- 3" and u = "1 / 2 ^ 55"]; simp add: numeral_eval)
    apply (rule fl_eval [where e = "- 8" and u = "1 / 2 ^ 60"]; simp add: numeral_eval)
   apply (rule fl_eval [where e = "- 9" and u = "1 / 2 ^ 61"]; simp add: numeral_eval)
  apply (rule fl_eval [where e = 2 and u = "1 / 2 ^ 50"]; simp add: numeral_eval)
  done

lemma ex_rounded:
  "py_round2 (Fin (3602879701896397 / 2 ^ 54)) = Fin (3602879701896397 / 2 ^ 54)"
  "py_round2 (Fin (5764607523034235 / 2 ^ 60)) = Fin (5764607523034235 / 2 ^ 59)"
  "py_round2 (Fin (1152921504606847 / 2 ^ 59)) = Fin 0"
  "py_round2 (Fin 4) = Fin 4"
  "py_round2 (Fin (1 / 8)) = Fin (1080863910568919 / 2 ^ 53)"
      apply (simp add: float_fin_simps(7) py_round_def Let_def)
      apply (rule fl_eval [where e = "- 3" and u = "1 / 2 ^ 55"]; simp add: numeral_eval)
     apply (simp add: float_fin_simps(7) py_round_def Let_def)
     apply (rule fl_eval [where e = "- 7" and u = "1 / 2 ^ 59"]; simp add: numeral_eval)
    apply (simp add: float_fin_simps(7) py_round_def Let_def fl_zero)
   apply (simp add: float_fin_simps(7) py_round_def Let_def)
   apply (rule fl_eval [where e = 2 and u = "1 / 2 ^ 50"]; simp add: numeral_eval)
  apply (simp add: float_fin_simps(7) py_round_def Let_def)
  apply (rule fl_eval [where e = "- 4" and u = "1 / 2 ^ 56"]; simp add: numeral_eval)
  done

lemma ex_float_facts:
  "float_mul (Fin 10000) (Fin (round_to_double (1 / 50))) = Fin 200"
  "float_abs (float_sub (Fin 2058) (Fin 2048)) = Fin 10"
  "float_abs (float_sub (Fin 2058) (Fin 1658)) = Fin 400"
  "float_abs (float_sub (Fin 2058) (Fin 1058)) = Fin 1000"
  "float_abs (float_sub (Fin 2048) (Fin 2048)) = Fin 0"
  "float_mul (Fin 10) (Fin 100) = Fin 1000"
  "float_mul (Fin 400) (Fin 100) = Fin 40000"
  "float_mul (Fin 1000) (Fin 100) = Fin 100000"
  "float_mul (Fin 10) (Fin 0) = Fin 0"
  "float_quot (Fin 200) (Fin 1000) = Fin (3602879701896397 / 18014398509481984)"
  "float_quot (Fin 200) (Fin 40000) = Fin (5764607523034235 / 1152921504606846976)"
  "float_quot (Fin 200) (Fin 100000) = Fin (1152921504606847 / 576460752303423488)"
  "py_round2 (Fin (3602879701896397 / 18014398509481984)) =
     Fin (3602879701896397 / 18014398509481984)"
  "py_round2 (Fin (5764607523034235 / 1152921504606846976)) =
     Fin (5764607523034235 / 576460752303423488)"
  "py_round2 (Fin (1152921504606847 / 576460752303423488)) = Fin 0"
  "float_mul (Fin 300) (Fin (round_to_double (1 / 100))) = Fin 3"
  "float_add (Fin 2058) (Fin 3) = Fin 2061"
proof -
  show "float_mul (Fin 10000) (Fin (round_to_double (1 / 50))) = Fin 200"
    unfolding float_fin_simps ex_risk_percent by (rule ex_risk_amount)
  show "float_abs (float_sub (Fin 2058) (Fin 2048)) = Fin 10"
    unfolding float_fin_simps(3) ex_distances by (simp add: float_fin_simps)
  show "float_abs (float_sub (Fin 2058) (Fin 1658)) = Fin 400"
    unfolding float_fin_simps(3) ex_distances by (simp add: float_fin_simps)
  show "float_abs (float_sub (Fin 2058) (Fin 1058)) = Fin 1000"
    unfolding float_fin_simps(3) ex_distances by (simp add: float_fin_simps)
  show "float_abs (float_sub (Fin 2048) (Fin 2048)) = Fin 0"
    by (simp add: float_fin_simps fl_zero)
  show "float_mul (Fin 10) (Fin 100) = Fin 1000"
    unfolding float_fin_simps by (rule ex_products)
  show "float_mul (Fin 400) (Fin 100) = Fin 40000"
    unfolding float_fin_simps by (rule ex_products)
  show "float_mul (Fin 1000) (Fin 100) = Fin 100000"
    unfolding float_fin_simps by (rule ex_products)
  show "float_mul (Fin 10) (Fin 0) = Fin 0"
    by (simp add: float_fin_simps fl_zero)
  have p: "(2::real) ^ 54 = 18014398509481984" "(2::real) ^ 60 = 1152921504606846976"
    "(2::real) ^ 59 = 576460752303423488"
    by simp_all
  show "float_quot (Fin 200) (Fin 1000) = Fin (3602879701896397 / 18014398509481984)"
    unfolding float_fin_simps p [symmetric] by (rule ex_quotients)
  show "float_quot (Fin 200) (Fin 40000) = Fin (5764607523034235 / 1152921504606846976)"
    unfolding float_fin_simps p [symmetric] by (rule ex_quotients)
  show "float_quot (Fin 200) (Fin 100000) = Fin (1152921504606847 / 576460752303423488)"
    unfolding float_fin_simps p [symmetric] by (rule ex_quotients)
  show "py_round2 (Fin (3602879701896397 / 18014398509481984)) =
     Fin (3602879701896397 / 18014398509481984)"
    unfolding p [symmetric] by (rule ex_rounded)
  show "py_round2 (Fin (5764607523034235 / 1152921504606846976)) =
     Fin (5764607523034235 / 576460752303423488)"
    unfolding p [symmetric] by (rule ex_rounded)
  show "py_round2 (Fin (1152921504606847 / 576460752303423488)) = Fin 0"
    unfolding p [symmetric] by (rule ex_rounded)
  show "float_mul (Fin 300) (Fin (round_to_double (1 / 100))) = Fin 3"
    unfolding float_fin_simps ex_pip_size by (rule ex_target)
  show "float_add (Fin 2058) (Fin 3) = Fin 2061"
    unfolding float_fin_simps by (rule ex_target)
qed


section \<open>Properties of the breakout strategy\<close>

lemmas ex_defs = ex_strategy_def ex_candle_def ex_levels_def ex_loaded_def init_strategy_def
  at_time_def date_of_def ex_c1_def ex_c2_def ex_c3_def ex_armed_def ex_order_def ex_locked_def
  ymd2ord_def days_before_year_def days_before_month_def is_leap_def

subsection \<open>The example states\<close>

lemma ex_selectors:
  "today ex_armed = Some (date_of (start_time ex_c3))" "\<not> traded_today ex_armed"
  "c1 ex_armed = Some ex_c1" "c2 ex_armed = Some ex_c2" "direction ex_armed = Some BUY"
  "today ex_wide = Some (date_of (start_time ex_c3))" "\<not> traded_today ex_wide"
  "c1 ex_wide = Some ex_c1_wide" "c2 ex_wide = Some ex_c2"
  "direction ex_wide = Some BUY"
  "today ex_far = Some (date_of (start_time ex_c3))" "\<not> traded_today ex_far"
  "c1 ex_far = Some ex_c1_far" "c2 ex_far = Some ex_c2"
  "direction ex_far = Some BUY"
  by (simp_all add: ex_armed_def ex_wide_def ex_far_def ex_loaded_def ex_strategy_def
      init_strategy_def ex_c3_def ex_candle_def at_time_def date_of_def)

lemma ex_after:
  "ex_armed\<lparr>traded_today := True, c1 := None, c2 := None, direction := None\<rparr> = ex_locked"
  "ex_armed\<lparr>c1 := None, c2 := None, direction := None\<rparr> = ex_loaded"
  "ex_wide\<lparr>traded_today := True, c1 := None, c2 := None, direction := None\<rparr> = ex_locked"
  "ex_far\<lparr>c1 := None, c2 := None, direction := None\<rparr> = ex_loaded"
  by (simp_all add: ex_armed_def ex_wide_def ex_far_def ex_locked_def ex_loaded_def
      ex_strategy_def init_strategy_def)

lemma ex_fields:
  "account_balance ex_armed = 10000" "risk_percent ex_armed = round_to_double (1 / 50)"
  "contract_size ex_armed = 100" "tp_pips ex_armed = 300"
  "pip_size ex_armed = round_to_double (1 / 100)" "epic ex_armed = ''GOLD''"
  "account_balance ex_wide = 10000" "risk_percent ex_wide = round_to_double (1 / 50)"
  "contract_size ex_wide = 100" "tp_pips ex_wide = 300"
  "pip_size ex_wide = round_to_double (1 / 100)" "epic ex_wide = ''GOLD''"
  "account_balance ex_far = 10000" "risk_percent ex_far = round_to_double (1 / 50)"
  "contract_size ex_far = 100" "tp_pips ex_far = 300"
  "pip_size ex_far = round_to_double (1 / 100)" "epic ex_far = ''GOLD''"
  "open_price ex_c3 = 2058" "open_price ex_c3_on_stop = 2048"
  "min (low ex_c1) (low ex_c2) = 2048"
  "min (low ex_c1_wide) (low ex_c2) = 1658"
  "min (low ex_c1_far) (low ex_c2) = 1058"
  by (simp_all add: ex_armed_def ex_wide_def ex_far_def ex_loaded_def ex_strategy_def
      init_strategy_def ex_c1_def ex_c2_def ex_c3_def ex_c1_wide_def ex_c1_far_def
      ex_c3_on_stop_def ex_candle_def)

text \<open>
  Claim C8. The previous trading day of a Monday is three calendar days earlier, of a
  Sunday two days earlier, and of every other day one day earlier.
\<close>
theorem previous_trading_day_mapping:
  "(weekday d = 0 \<longrightarrow> get_previous_trading_day d = d - 3)
   \<and> (weekday d = 6 \<longrightarrow> get_previous_trading_day d = d - 2)
   \<and> (weekday d \<noteq> 0 \<and> weekday d \<noteq> 6 \<longrightarrow> get_previous_trading_day d = d - 1)"
  by (simp add: get_previous_trading_day_def)

text \<open>
  Monday 2024-01-01 maps to Friday 2023-12-29, Sunday 2024-03-03 to Friday 2024-03-01 and
  Tuesday 2024-01-02 to Monday 2024-01-01.
\<close>
theorem previous_trading_day_mapping_witness:
  "weekday (ymd2ord 2024 1 1) = 0
   \<and> get_previous_trading_day (ymd2ord 2024 1 1) = ymd2ord 2023 12 29
   \<and> weekday (ymd2ord 2024 3 3) = 6
   \<and> get_previous_trading_day (ymd2ord 2024 3 3) = ymd2ord 2024 3 1
   \<and> weekday (ymd2ord 2024 1 2) \<noteq> 0 \<and> weekday (ymd2ord 2024 1 2) \<noteq> 6
   \<and> get_previous_trading_day (ymd2ord 2024 1 2) = ymd2ord 2024 1 1"
  using previous_trading_day_mapping [of "ymd2ord 2024 1 1"]
    previous_trading_day_mapping [of "ymd2ord 2024 3 3"]
    previous_trading_day_mapping [of "ymd2ord 2024 1 2"]
  by (simp add: weekday_def ymd2ord_def days_before_year_def days_before_month_def
      is_leap_def Let_def)

subsection \<open>Day rollover\<close>
lemma load_yesterday_levels_Inr:
  assumes "load_yesterday_levels df s d = Inr s'"
  shows "c1 s' = None \<and> c2 s' = None \<and> direction s' = None \<and> \<not> traded_today s'
     \<and> today s' = Some d
     \<and> (\<exists>row \<in> set (rows df). trading_day row = get_previous_trading_day d
            \<and> y_high s' = Some (high_bid row) \<and> y_low s' = Some (low_bid row))"
proof -
  let ?P = "\<lambda>r. trading_day r = get_previous_trading_day d"
  let ?row = "filter ?P (rows df)"
  from assms have ne: "?row \<noteq> []"
    by (auto simp: load_yesterday_levels_def Let_def split: if_splits)
  from assms ne have s': "s' = reset_setup
      (s\<lparr>y_high := Some (high_bid (last ?row)), y_low := Some (low_bid (last ?row)),
         today := Some d, traded_today := False\<rparr>)"
    by (auto simp: load_yesterday_levels_def Let_def split: if_splits)
  have "last ?row \<in> set ?row" using ne by (rule last_in_set)
  then have "last ?row \<in> set (rows df)" and "?P (last ?row)" by simp_all
  then show ?thesis unfolding s' by (auto simp: reset_setup_def)
qed

text \<open>
  Claim C10. A closed candle whose date differs from the stored \<open>today\<close> only loads the
  levels: when the load succeeds the decision is \<open>INIT_DAY\<close>, the setup is empty, the day
  is unlocked and the levels are those of the previous trading day's row; when the load
  raises, so does \<open>on_candle_close\<close>. In no case is the candle's close compared with the
  levels, so no C1 is recorded on it.
\<close>
theorem rollover_candle_not_evaluated:
  assumes "today s \<noteq> Some (date_of (start_time k))"
  shows "on_candle_close df s k =
     (case load_yesterday_levels df s (date_of (start_time k)) of
        Inl e \<Rightarrow> Inl e
      | Inr s' \<Rightarrow> Inr (s', \<lparr>result_time = start_time k, decision = INIT_DAY, order = None\<rparr>))
   \<and> (\<forall>s' r. on_candle_close df s k = Inr (s', r) \<longrightarrow>
      decision r = INIT_DAY \<and> order r = None \<and> c1 s' = None \<and> c2 s' = None
      \<and> direction s' = None \<and> \<not> traded_today s'
      \<and> today s' = Some (date_of (start_time k))
      \<and> (\<exists>row \<in> set (rows df).
            trading_day row = get_previous_trading_day (date_of (start_time k))
            \<and> y_high s' = Some (high_bid row) \<and> y_low s' = Some (low_bid row)))"
proof -
  have eq: "on_candle_close df s k =
     (case load_yesterday_levels df s (date_of (start_time k)) of
        Inl e \<Rightarrow> Inl e
      | Inr s' \<Rightarrow> Inr (s', \<lparr>result_time = start_time k, decision = INIT_DAY, order = None\<rparr>))"
    using assms by (simp add: on_candle_close_def split: sum.splits)
  have "decision r = INIT_DAY \<and> order r = None \<and> c1 s' = None \<and> c2 s' = None
      \<and> direction s' = None \<and> \<not> traded_today s'
      \<and> today s' = Some (date_of (start_time k))
      \<and> (\<exists>row \<in> set (rows df).
            trading_day row = get_previous_trading_day (date_of (start_time k))
            \<and> y_high s' = Some (high_bid row) \<and> y_low s' = Some (low_bid row))"
    if run: "on_candle_close df s k = Inr (s', r)" for s' r
  proof -
    from run eq obtain "load_yesterday_levels df s (date_of (start_time k)) = Inr s'"
      and "r = \<lparr>result_time = start_time k, decision = INIT_DAY, order = None\<rparr>"
      by (auto split: sum.splits)
    then show ?thesis using load_yesterday_levels_Inr [of df s "date_of (start_time k)" s']
      by simp
  qed
  with eq show ?thesis by blast
qed

text \<open>
  The first candle of 2024-01-02 closes at 2055, above the loaded high of 2050, and still
  yields \<open>INIT_DAY\<close> with no C1.
\<close>
theorem rollover_candle_not_evaluated_witness:
  "today ex_strategy \<noteq> Some (date_of (start_time (ex_candle 9 0 2049 2060 2048 2055)))
   \<and> on_candle_close ex_levels ex_strategy (ex_candle 9 0 2049 2060 2048 2055) =
       Inr (ex_loaded,
         \<lparr>result_time = at_time (ymd2ord 2024 1 2) 9 0, decision = INIT_DAY, order = None\<rparr>)
   \<and> y_high ex_loaded = Some 2050
   \<and> 2050 < close (ex_candle 9 0 2049 2060 2048 2055)
   \<and> c1 ex_loaded = None"
  using rollover_candle_not_evaluated [of ex_strategy "ex_candle 9 0 2049 2060 2048 2055" ex_levels]
  by (simp add: ex_strategy_def ex_candle_def ex_levels_def ex_loaded_def init_strategy_def
      at_time_def date_of_def load_yesterday_levels_def get_previous_trading_day_def weekday_def
      reset_setup_def ymd2ord_def days_before_year_def days_before_month_def is_leap_def Let_def)

subsection \<open>The day lock\<close>
lemma signal_locks:
  assumes "on_candle_close df s k = Inr (s1, r)" and "decision r = SIGNAL"
  shows "traded_today s1 \<and> today s1 = Some (date_of (start_time k))"
  using assms
  by (auto simp: on_candle_close_def Let_def reset_setup_def load_yesterday_levels_def
      split: if_splits option.splits sum.splits prod.splits)

lemma blocked_step:
  assumes "traded_today s" and "today s = Some (date_of (start_time k))"
  shows "on_candle_close df s k =
     Inr (s, \<lparr>result_time = start_time k, decision = BLOCKED, order = None\<rparr>)"
  using assms by (simp add: on_candle_close_def)

lemma blocked_run:
  assumes "traded_today s" and "\<forall>x\<in>set ks. today s = Some (date_of (start_time x))"
  shows "on_candles df s ks =
     Inr (s, map (\<lambda>x. \<lparr>result_time = start_time x, decision = BLOCKED, order = None\<rparr>) ks)"
  using assms by (induction ks) (simp_all add: blocked_step)

lemma calc_size_finite:
  assumes "fl (account_balance s * risk_percent s) = Fin ra"
    and "fl (entry - stop) = Fin d" and "d \<noteq> 0"
    and "fl (\<bar>d\<bar> * contract_size s) = Fin den" and "den \<noteq> 0"
    and "fl (ra / den) = Fin q"
  shows "calc_size s entry stop = Inr (py_round2 (Fin q))"
  using assms by (simp add: calc_size_def float_truediv_def float_fin_simps Let_def)

lemma on_candle_close_entry:
  assumes "today s = Some (date_of (start_time k))" and "\<not> traded_today s"
    and "c1 s = Some k1" and "c2 s = Some k2" and "direction s = Some d"
  shows "on_candle_close df s k =
     (case calc_size s (open_price k)
             (case d of BUY \<Rightarrow> min (low k1) (low k2) | SELL \<Rightarrow> max (high k1) (high k2)) of
        Inl err \<Rightarrow> Inl err
      | Inr sz \<Rightarrow>
          if float_le sz (Fin 0) then
            Inr (s\<lparr>c1 := None, c2 := None, direction := None\<rparr>,
                 \<lparr>result_time = start_time k, decision = REJECTED, order = None\<rparr>)
          else
            Inr (s\<lparr>traded_today := True, c1 := None, c2 := None, direction := None\<rparr>,
                 \<lparr>result_time = start_time k, decision = SIGNAL,
                  order = Some \<lparr>order_epic = epic s, order_direction = Some d, order_size = sz,
                    orderType = ''STOP'', level = open_price k,
                    stopLevel = (case d of BUY \<Rightarrow> min (low k1) (low k2)
                                         | SELL \<Rightarrow> max (high k1) (high k2)),
                    profitLevel =
                      (case d of
                         BUY \<Rightarrow> float_add (Fin (open_price k))
                                  (float_mul (Fin (tp_pips s)) (Fin (pip_size s)))
                       | SELL \<Rightarrow> float_sub (Fin (open_price k))
                                  (float_mul (Fin (tp_pips s)) (Fin (pip_size s))))\<rparr>\<rparr>))"
  using assms
  by (cases d) (simp_all add: on_candle_close_def reset_setup_def Let_def split: sum.splits)

lemma ex_signal:
  "on_candle_close ex_levels ex_armed ex_c3 =
     Inr (ex_locked, \<lparr>result_time = start_time ex_c3, decision = SIGNAL, order = Some ex_order\<rparr>)"
  using on_candle_close_entry [OF ex_selectors(1-5), of ex_levels]
  by (simp add: calc_size_def float_truediv_def Let_def ex_fields ex_float_facts
      float_fin_simps(6) ex_after ex_order_def)

text \<open>
  Claim C1. Once \<open>on_candle_close\<close> has returned \<open>SIGNAL\<close>, the day lock is set and
  \<open>today\<close> is that candle's date; every later closed candle of that date is answered
  \<open>BLOCKED\<close> and the strategy state stays exactly as the signal left it, whatever the
  candles' prices and whatever the levels file holds.
\<close>
theorem one_trade_per_day:
  assumes "on_candle_close df s k = Inr (s1, r)" and "decision r = SIGNAL"
    and "\<forall>x\<in>set ks. today s1 = Some (date_of (start_time x))"
  shows "traded_today s1 \<and> today s1 = Some (date_of (start_time k))
     \<and> on_candles df' s1 ks =
           Inr (s1, map (\<lambda>x. \<lparr>result_time = start_time x, decision = BLOCKED, order = None\<rparr>) ks)"
  using signal_locks [OF assms(1,2)] assms(3) by (simp add: blocked_run)

text \<open>
  After the signal of 09:03, a candle closing far above the high and one closing far below
  the low are both blocked.
\<close>
theorem one_trade_per_day_witness:
  "on_candle_close ex_levels ex_armed ex_c3 =
     Inr (ex_locked, \<lparr>result_time = start_time ex_c3, decision = SIGNAL, order = Some ex_order\<rparr>)
   \<and> today ex_locked = Some (date_of (start_time (ex_candle 9 4 2058 2070 2057 2069)))
   \<and> today ex_locked = Some (date_of (start_time (ex_candle 9 5 2069 2069 2000 2001)))
   \<and> on_candles ex_levels ex_locked
        [ex_candle 9 4 2058 2070 2057 2069, ex_candle 9 5 2069 2069 2000 2001] =
       Inr (ex_locked,
         [\<lparr>result_time = at_time (ymd2ord 2024 1 2) 9 4, decision = BLOCKED, order = None\<rparr>,
          \<lparr>result_time = at_time (ymd2ord 2024 1 2) 9 5, decision = BLOCKED, order = None\<rparr>])"
proof -
  have d: "\<forall>x\<in>set [ex_candle 9 4 2058 2070 2057 2069, ex_candle 9 5 2069 2069 2000 2001].
         today ex_locked = Some (date_of (start_time x))"
    by (simp add: ex_locked_def ex_loaded_def ex_candle_def at_time_def date_of_def)
  show ?thesis
    using one_trade_per_day [OF ex_signal _ d, of ex_levels] ex_signal d
    by (simp add: ex_candle_def)
qed

subsection \<open>Breakout detection (C1)\<close>

text \<open>
  Claim C7. With the setup empty, the day current and unlocked, a close strictly above
  yesterday's high records C1 with direction \<open>BUY\<close>, otherwise a close strictly below
  yesterday's low records C1 with direction \<open>SELL\<close>, otherwise the decision is \<open>NO_TRADE\<close>
  and the state is unchanged; a close equal to either level (of a low not above the high)
  is such a \<open>NO_TRADE\<close>.
\<close>
theorem c1_detection_strict:
  assumes "today s = Some (date_of (start_time k))" and "\<not> traded_today s"
    and "c1 s = None" and "y_high s = Some yh" and "y_low s = Some yl"
  shows "on_candle_close df s k =
     (if yh < close k then
        Inr (s\<lparr>c1 := Some k, direction := Some BUY\<rparr>,
             \<lparr>result_time = start_time k, decision = C1, order = None\<rparr>)
      else if close k < yl then
        Inr (s\<lparr>c1 := Some k, direction := Some SELL\<rparr>,
             \<lparr>result_time = start_time k, decision = C1, order = None\<rparr>)
      else Inr (s, \<lparr>result_time = start_time k, decision = NO_TRADE, order = None\<rparr>))
    \<and> (yl \<le> yh \<and> (close k = yh \<or> close k = yl) \<longrightarrow>
      on_candle_close df s k =
        Inr (s, \<lparr>result_time = start_time k, decision = NO_TRADE, order = None\<rparr>))"
  using assms by (auto simp: on_candle_close_def)

text \<open>
  Levels 2050 and 2030: closes at 2055 and 2029.5 break out, closes at exactly 2050 and
  exactly 2030 do not.
\<close>
theorem c1_detection_strict_witness:
  "today ex_loaded = Some (date_of (start_time ex_c1)) \<and> \<not> traded_today ex_loaded
   \<and> c1 ex_loaded = None \<and> y_high ex_loaded = Some 2050 \<and> y_low ex_loaded = Some 2030
   \<and> on_candle_close ex_levels ex_loaded ex_c1 =
       Inr (ex_loaded\<lparr>c1 := Some ex_c1, direction := Some BUY\<rparr>,
            \<lparr>result_time = start_time ex_c1, decision = C1, order = None\<rparr>)
   \<and> on_candle_close ex_levels ex_loaded (ex_candle 9 1 2040 2041 2029 2029.5) =
       Inr (ex_loaded\<lparr>c1 := Some (ex_candle 9 1 2040 2041 2029 2029.5), direction := Some SELL\<rparr>,
            \<lparr>result_time = at_time (ymd2ord 2024 1 2) 9 1, decision = C1, order = None\<rparr>)
   \<and> on_candle_close ex_levels ex_loaded (ex_candle 9 1 2040 2051 2039 2050) =
       Inr (ex_loaded,
            \<lparr>result_time = at_time (ymd2ord 2024 1 2) 9 1, decision = NO_TRADE, order = None\<rparr>)
   \<and> on_candle_close ex_levels ex_loaded (ex_candle 9 1 2040 2041 2029 2030) =
       Inr (ex_loaded,
            \<lparr>result_time = at_time (ymd2ord 2024 1 2) 9 1, decision = NO_TRADE, order = None\<rparr>)"
  using c1_detection_strict [of ex_loaded ex_c1 2050 2030 ex_levels]
    c1_detection_strict [of ex_loaded "ex_candle 9 1 2040 2041 2029 2029.5" 2050 2030 ex_levels]
    c1_detection_strict [of ex_loaded "ex_candle 9 1 2040 2051 2039 2050" 2050 2030 ex_levels]
    c1_detection_strict [of ex_loaded "ex_candle 9 1 2040 2041 2029 2030" 2050 2030 ex_levels]
  by (simp add: ex_loaded_def ex_strategy_def init_strategy_def ex_c1_def ex_candle_def
      at_time_def date_of_def)

subsection \<open>Entry (C3)\<close>

lemma ex_size_four:
  "calc_size (init_strategy e 10000 2 tpp pip 100) 100 99.5 = Inr (Fin 4)"
proof -
  let ?s = "init_strategy e 10000 2 tpp pip 100"
  have ra: "account_balance ?s * risk_percent ?s = 10000 * (5764607523034235 / 2 ^ 58)"
    using ex_risk_percent by (simp add: init_strategy_def)
  have a1: "fl (account_balance ?s * risk_percent ?s) = Fin 200"
    unfolding ra by (rule ex_risk_amount)
  have a2: "fl (100 - 99.5) = Fin (1 / 2)" by (rule ex_distances(4))
  have cs: "\<bar>1 / 2\<bar> * contract_size ?s = 1 / 2 * 100" by (simp add: init_strategy_def)
  have a3: "fl (\<bar>1 / 2\<bar> * contract_size ?s) = Fin 50"
    unfolding cs by (rule ex_products(4))
  have a4: "fl (200 / 50) = Fin 4" by (rule ex_quotients(4))
  from calc_size_finite [OF a1 a2 _ a3 _ a4] show ?thesis
    by (simp add: ex_rounded(4))
qed

text \<open>
  Claim C2, as the code has it. With C1 and C2 recorded, the entry is the candle's open,
  the stop is the lower of the two lows for \<open>BUY\<close> and the higher of the two highs for
  \<open>SELL\<close>, the target is the entry plus or minus \<open>tp_pips * pip_size\<close>, and the size is
  the risk amount divided by stop distance times contract size, rounded to two places,
  all in float arithmetic. A zero stop distance gives \<open>REJECTED\<close> with no division, and so
  does a size that is not above zero: the setup is cleared and the day stays unlocked.
  When the stop distance is not zero and its product with the contract size is zero, as
  with a contract size of 0, the division raises \<open>ZeroDivisionError\<close>. Otherwise the day
  is locked, the setup cleared and the \<open>SIGNAL\<close> carries the order. Rounding to two places
  takes the nearest hundredth of the float's exact value and returns the float nearest to
  it. Balance 10000 at 2 percent risk, entry 100, stop 99.5 and contract size 100 give
  size 4.
\<close>

theorem c3_entry:
  assumes "today s = Some (date_of (start_time k))" and "\<not> traded_today s"
    and "c1 s = Some k1" and "c2 s = Some k2" and "direction s = Some d"
  defines "entry \<equiv> open_price k"
    and "sl \<equiv> (case d of BUY \<Rightarrow> min (low k1) (low k2) | SELL \<Rightarrow> max (high k1) (high k2))"
    and "tp \<equiv> (case d of
                  BUY \<Rightarrow> float_add (Fin (open_price k))
                           (float_mul (Fin (tp_pips s)) (Fin (pip_size s)))
                | SELL \<Rightarrow> float_sub (Fin (open_price k))
                           (float_mul (Fin (tp_pips s)) (Fin (pip_size s))))"
  defines "stop_dist \<equiv> float_abs (float_sub (Fin entry) (Fin sl))"
  defines "den \<equiv> float_mul stop_dist (Fin (contract_size s))"
  defines "sz \<equiv> py_round2
      (float_quot (float_mul (Fin (account_balance s)) (Fin (risk_percent s))) den)"
  defines "rejected \<equiv>
      Inr (s\<lparr>c1 := None, c2 := None, direction := None\<rparr>,
           \<lparr>result_time = start_time k, decision = REJECTED, order = None\<rparr>)"
  shows "on_candle_close df s k =
     (if float_le stop_dist (Fin 0) then rejected
      else if den = Fin 0 then Inl ZeroDivisionError
      else if float_le sz (Fin 0) then rejected
      else
        Inr (s\<lparr>traded_today := True, c1 := None, c2 := None, direction := None\<rparr>,
             \<lparr>result_time = start_time k, decision = SIGNAL,
              order = Some \<lparr>order_epic = epic s, order_direction = Some d, order_size = sz,
                orderType = ''STOP'', level = entry, stopLevel = sl, profitLevel = tp\<rparr>\<rparr>))
     \<and> (entry = sl \<longrightarrow> on_candle_close df s k = rejected)
     \<and> (\<forall>x. py_round2 (Fin x) = fl (of_int (py_round (x * 100)) / 100)
            \<and> \<bar>of_int (py_round (x * 100)) - x * 100\<bar> \<le> 1 / 2)
     \<and> calc_size (init_strategy e 10000 2 tpp pip 100) 100 99.5 = Inr (Fin 4)"
proof -
  have cs: "calc_size s entry sl =
     (if float_le stop_dist (Fin 0) then Inr (Fin 0)
      else if den = Fin 0 then Inl ZeroDivisionError
      else Inr sz)"
    by (simp add: calc_size_def float_truediv_def stop_dist_def den_def sz_def Let_def)
  have main: "on_candle_close df s k =
     (if float_le stop_dist (Fin 0) then rejected
      else if den = Fin 0 then Inl ZeroDivisionError
      else if float_le sz (Fin 0) then rejected
      else
        Inr (s\<lparr>traded_today := True, c1 := None, c2 := None, direction := None\<rparr>,
             \<lparr>result_time = start_time k, decision = SIGNAL,
              order = Some \<lparr>order_epic = epic s, order_direction = Some d, order_size = sz,
                orderType = ''STOP'', level = entry, stopLevel = sl, profitLevel = tp\<rparr>\<rparr>))"
    using on_candle_close_entry [OF assms(1-5), of df] cs
    by (simp add: entry_def sl_def tp_def rejected_def float_fin_simps)
  have "float_le stop_dist (Fin 0)" if "entry = sl"
    using that by (simp add: stop_dist_def float_fin_simps fl_zero)
  with main have zero: "entry = sl \<longrightarrow> on_candle_close df s k = rejected" by simp
  have pin: "\<forall>x. py_round2 (Fin x) = fl (of_int (py_round (x * 100)) / 100)
            \<and> \<bar>of_int (py_round (x * 100)) - x * 100\<bar> \<le> 1 / 2"
    using py_round_bounds float_fin_simps(7) by blast
  from main zero pin ex_size_four show ?thesis by (intro conjI)
qed

text \<open>
  Entry at 2058: against a stop of 2048 the size is the float 0.2 and the signal fires;
  against 1658 the quotient is the float just above 0.005, which rounds to 0.01, and the
  signal fires; against 1058 the size rounds to 0 and the entry is rejected, as is an
  entry on the stop itself. The float 0.125 is a tie and rounds to 0.12.
\<close>

theorem c3_entry_witness:
  "today ex_armed = Some (date_of (start_time ex_c3)) \<and> \<not> traded_today ex_armed
   \<and> c1 ex_armed = Some ex_c1 \<and> c2 ex_armed = Some ex_c2 \<and> direction ex_armed = Some BUY
   \<and> on_candle_close ex_levels ex_armed ex_c3 =
       Inr (ex_locked, \<lparr>result_time = start_time ex_c3, decision = SIGNAL, order = Some ex_order\<rparr>)
   \<and> on_candle_close ex_levels ex_armed ex_c3_on_stop =
       Inr (ex_loaded,
         \<lparr>result_time = at_time (ymd2ord 2024 1 2) 9 3, decision = REJECTED, order = None\<rparr>)
   \<and> on_candle_close ex_levels ex_wide ex_c3 =
       Inr (ex_locked,
         \<lparr>result_time = start_time ex_c3, decision = SIGNAL,
          order = Some \<lparr>order_epic = ''GOLD'', order_direction = Some BUY,
            order_size = Fin (5764607523034235 / 576460752303423488), orderType = ''STOP'',
            level = 2058, stopLevel = 1658, profitLevel = Fin 2061\<rparr>\<rparr>)
   \<and> on_candle_close ex_levels ex_far ex_c3 =
       Inr (ex_loaded, \<lparr>result_time = start_time ex_c3, decision = REJECTED, order = None\<rparr>)
   \<and> py_round2 (Fin (1 / 8)) = Fin (1080863910568919 / 9007199254740992)"
proof -
  let ?on = ex_c3_on_stop
  have d: "today ex_armed = Some (date_of (start_time ?on))"
    by (simp add: ex_armed_def ex_loaded_def ex_c3_on_stop_def ex_candle_def at_time_def
        date_of_def)
  have t: "start_time ?on = at_time (ymd2ord 2024 1 2) 9 3"
    by (simp add: ex_c3_on_stop_def ex_candle_def)
  have p: "(2::real) ^ 53 = 9007199254740992" by simp
  have r1: "on_candle_close ex_levels ex_armed ex_c3 =
       Inr (ex_locked, \<lparr>result_time = start_time ex_c3, decision = SIGNAL, order = Some ex_order\<rparr>)"
    using c3_entry [OF ex_selectors(1-5), of ex_levels]
    by (simp add: ex_fields ex_float_facts float_fin_simps(6) ex_after ex_order_def)
  have r2: "on_candle_close ex_levels ex_armed ?on =
       Inr (ex_loaded,
         \<lparr>result_time = at_time (ymd2ord 2024 1 2) 9 3, decision = REJECTED, order = None\<rparr>)"
    using c3_entry [OF d ex_selectors(2-5), of ex_levels]
    by (simp add: ex_fields ex_float_facts float_fin_simps(6) ex_after t)
  have r3: "on_candle_close ex_levels ex_wide ex_c3 =
       Inr (ex_locked,
         \<lparr>result_time = start_time ex_c3, decision = SIGNAL,
          order = Some \<lparr>order_epic = ''GOLD'', order_direction = Some BUY,
            order_size = Fin (5764607523034235 / 576460752303423488), orderType = ''STOP'',
            level = 2058, stopLevel = 1658, profitLevel = Fin 2061\<rparr>\<rparr>)"
    using c3_entry [OF ex_selectors(6-10), of ex_levels]
    by (simp add: ex_fields ex_float_facts float_fin_simps(6) ex_after)
  have r4: "on_candle_close ex_levels ex_far ex_c3 =
       Inr (ex_loaded, \<lparr>result_time = start_time ex_c3, decision = REJECTED, order = None\<rparr>)"
    using c3_entry [OF ex_selectors(11-15), of ex_levels]
    by (simp add: ex_fields ex_float_facts float_fin_simps(6) ex_after)
  have r5: "py_round2 (Fin (1 / 8)) = Fin (1080863910568919 / 9007199254740992)"
    unfolding p [symmetric] by (rule ex_rounded)
  show ?thesis using ex_selectors(1-5) r1 r2 r3 r4 r5 by (intro conjI)
qed

text \<open>
  With a contract size of 0 and a stop distance of 10 the call raises
  \<open>ZeroDivisionError\<close>: the result is neither \<open>REJECTED\<close> nor \<open>SIGNAL\<close>.
\<close>

theorem c3_entry_counterexample:
  "today (ex_armed\<lparr>contract_size := 0\<rparr>) = Some (date_of (start_time ex_c3))
   \<and> \<not> traded_today (ex_armed\<lparr>contract_size := 0\<rparr>)
   \<and> c1 (ex_armed\<lparr>contract_size := 0\<rparr>) = Some ex_c1
   \<and> c2 (ex_armed\<lparr>contract_size := 0\<rparr>) = Some ex_c2
   \<and> open_price ex_c3 = 2058 \<and> min (low ex_c1) (low ex_c2) = 2048
   \<and> on_candle_close ex_levels (ex_armed\<lparr>contract_size := 0\<rparr>) ex_c3 = Inl ZeroDivisionError"
proof -
  let ?s = "ex_armed\<lparr>contract_size := 0\<rparr>"
  have h: "today ?s = Some (date_of (start_time ex_c3))" "\<not> traded_today ?s"
    "c1 ?s = Some ex_c1" "c2 ?s = Some ex_c2" "direction ?s = Some BUY"
    using ex_selectors(1-5) by simp_all
  have r: "on_candle_close ex_levels ?s ex_c3 = Inl ZeroDivisionError"
    using on_candle_close_entry [OF h, of ex_levels]
    by (simp add: calc_size_def float_truediv_def Let_def ex_fields ex_float_facts
        float_fin_simps(6))
  show ?thesis using h(1-4) ex_fields(19,21) r by (intro conjI)
qed

subsection \<open>Invalidation (C2 not confirmed)\<close>

text \<open>
  Claim C6. With C1 recorded and C2 empty, a candle that does not continue the breakout
  side gives \<open>INVALIDATED\<close>: C1, C2 and the direction are cleared and the day stays
  unlocked. Three later candles of the same day that break out, confirm and enter with a
  positive size then yield C1, C2 and \<open>SIGNAL\<close>, on the buy side and on the sell side.
\<close>
theorem invalidation_keeps_day_open:
  assumes "today s = Some dd" and "date_of (start_time k) = dd" and "\<not> traded_today s"
    and "c1 s = Some k1" and "c2 s = None" and "y_high s = Some yh" and "y_low s = Some yl"
    and "\<not> (direction s = Some BUY \<and> yh < close k)"
    and "\<not> (direction s = Some SELL \<and> close k < yl)"
  shows "on_candle_close df s k =
       Inr (reset_setup s, \<lparr>result_time = start_time k, decision = INVALIDATED, order = None\<rparr>)
     \<and> c1 (reset_setup s) = None \<and> c2 (reset_setup s) = None
     \<and> direction (reset_setup s) = None \<and> \<not> traded_today (reset_setup s)
     \<and> today (reset_setup s) = Some dd
     \<and> (\<forall>a b c sz.
          date_of (start_time a) = dd \<and> date_of (start_time b) = dd
          \<and> date_of (start_time c) = dd
          \<and> yh < close a \<and> yh < close b
          \<and> calc_size s (open_price c) (min (low a) (low b)) = Inr (Fin sz) \<and> 0 < sz
          \<longrightarrow> (\<exists>s' r1 r2 r3.
                on_candles df' (reset_setup s) [a, b, c] = Inr (s', [r1, r2, r3])
                \<and> decision r1 = C1 \<and> decision r2 = C2 \<and> decision r3 = SIGNAL
                \<and> traded_today s'))
     \<and> (\<forall>a b c sz.
          date_of (start_time a) = dd \<and> date_of (start_time b) = dd
          \<and> date_of (start_time c) = dd
          \<and> \<not> yh < close a \<and> close a < yl \<and> close b < yl
          \<and> calc_size s (open_price c) (max (high a) (high b)) = Inr (Fin sz) \<and> 0 < sz
          \<longrightarrow> (\<exists>s' r1 r2 r3.
                on_candles df' (reset_setup s) [a, b, c] = Inr (s', [r1, r2, r3])
                \<and> decision r1 = C1 \<and> decision r2 = C2 \<and> decision r3 = SIGNAL
                \<and> traded_today s'))"
proof -
  have inv: "on_candle_close df s k =
       Inr (reset_setup s, \<lparr>result_time = start_time k, decision = INVALIDATED, order = None\<rparr>)"
    using assms by (cases "direction s") (auto simp: on_candle_close_def Let_def)
  have cs: "calc_size (t\<lparr>c1 := x\<rparr>) p q = calc_size t p q"
    "calc_size (t\<lparr>c2 := y\<rparr>) p q = calc_size t p q"
    "calc_size (t\<lparr>direction := z\<rparr>) p q = calc_size t p q"
    for t x y z p q by (simp_all add: calc_size_def Let_def)
  have buy: "\<exists>s' r1 r2 r3.
                on_candles df' (reset_setup s) [a, b, c] = Inr (s', [r1, r2, r3])
                \<and> decision r1 = C1 \<and> decision r2 = C2 \<and> decision r3 = SIGNAL
                \<and> traded_today s'"
    if "date_of (start_time a) = dd" "date_of (start_time b) = dd"
       "date_of (start_time c) = dd" "yh < close a" "yh < close b"
       "calc_size s (open_price c) (min (low a) (low b)) = Inr (Fin sz)" "0 < sz" for a b c sz
    using that assms(1,3,6,7)
    by (simp add: on_candle_close_def reset_setup_def cs float_fin_simps(6) Let_def)
  have sell: "\<exists>s' r1 r2 r3.
                on_candles df' (reset_setup s) [a, b, c] = Inr (s', [r1, r2, r3])
                \<and> decision r1 = C1 \<and> decision r2 = C2 \<and> decision r3 = SIGNAL
                \<and> traded_today s'"
    if "date_of (start_time a) = dd" "date_of (start_time b) = dd"
       "date_of (start_time c) = dd" "\<not> yh < close a" "close a < yl" "close b < yl"
       "calc_size s (open_price c) (max (high a) (high b)) = Inr (Fin sz)" "0 < sz" for a b c sz
    using that assms(1,3,6,7)
    by (simp add: on_candle_close_def reset_setup_def cs float_fin_simps(6) Let_def)
  show ?thesis
    using inv buy sell assms(1,3) by (simp add: reset_setup_def)
qed

text \<open>
  A breakout at 09:01 falls back to 2045 at 09:02 and is invalidated; the candles
  \<open>ex_c1\<close>, \<open>ex_c2\<close>, \<open>ex_c3\<close> then produce a signal.
\<close>
theorem invalidation_keeps_day_open_witness:
  "today (ex_loaded\<lparr>c1 := Some ex_c1, direction := Some BUY\<rparr>) = Some (ymd2ord 2024 1 2)
   \<and> \<not> (direction (ex_loaded\<lparr>c1 := Some ex_c1, direction := Some BUY\<rparr>) = Some BUY
          \<and> 2050 < close (ex_candle 9 2 2055 2056 2044 2045))
   \<and> on_candle_close ex_levels (ex_loaded\<lparr>c1 := Some ex_c1, direction := Some BUY\<rparr>)
        (ex_candle 9 2 2055 2056 2044 2045) =
       Inr (ex_loaded,
         \<lparr>result_time = start_time (ex_candle 9 2 2055 2056 2044 2045),
          decision = INVALIDATED, order = None\<rparr>)
   \<and> \<not> traded_today ex_loaded
   \<and> calc_size (ex_loaded\<lparr>c1 := Some ex_c1, direction := Some BUY\<rparr>) (open_price ex_c3)
        (min (low ex_c1) (low ex_c2)) = Inr (Fin (3602879701896397 / 18014398509481984))
   \<and> (\<exists>s' r1 r2 r3.
        on_candles ex_levels ex_loaded [ex_c1, ex_c2, ex_c3] = Inr (s', [r1, r2, r3])
        \<and> decision r1 = C1 \<and> decision r2 = C2 \<and> decision r3 = SIGNAL \<and> traded_today s')"
proof -
  let ?s = "ex_loaded\<lparr>c1 := Some ex_c1, direction := Some BUY\<rparr>"
  let ?k = "ex_candle 9 2 2055 2056 2044 2045"
  have h1: "today ?s = Some (ymd2ord 2024 1 2)"
    and h3: "\<not> traded_today ?s" and h4: "c1 ?s = Some ex_c1" and h5: "c2 ?s = None"
    and h6: "y_high ?s = Some 2050" and h7: "y_low ?s = Some 2030"
    and h10: "\<not> traded_today ex_loaded"
    by (simp_all add: ex_loaded_def ex_strategy_def init_strategy_def)
  have h2: "date_of (start_time ?k) = ymd2ord 2024 1 2"
    by (simp add: ex_candle_def at_time_def date_of_def)
  have h8: "\<not> (direction ?s = Some BUY \<and> 2050 < close ?k)"
    and h9: "\<not> (direction ?s = Some SELL \<and> close ?k < 2030)"
    by (simp_all add: ex_candle_def)
  have sz: "calc_size ?s (open_price ex_c3) (min (low ex_c1) (low ex_c2)) =
      Inr (Fin (3602879701896397 / 18014398509481984))"
    by (simp add: calc_size_def float_truediv_def Let_def ex_fields(19,21) ex_float_facts
        float_fin_simps(6) ex_loaded_def ex_strategy_def init_strategy_def)
  have rs: "reset_setup ?s = ex_loaded"
    by (simp add: reset_setup_def ex_loaded_def ex_strategy_def init_strategy_def)
  have dates: "date_of (start_time ex_c1) = ymd2ord 2024 1 2"
    "date_of (start_time ex_c2) = ymd2ord 2024 1 2"
    "date_of (start_time ex_c3) = ymd2ord 2024 1 2"
    by (simp_all add: ex_c1_def ex_c2_def ex_c3_def ex_candle_def at_time_def date_of_def)
  have closes: "2050 < close ex_c1" "2050 < close ex_c2"
    by (simp_all add: ex_c1_def ex_c2_def ex_candle_def)
  note inst = invalidation_keeps_day_open [OF h1 h2 h3 h4 h5 h6 h7 h8 h9,
      of ex_levels ex_levels, unfolded rs]
  from inst have a: "on_candle_close ex_levels ?s ?k =
       Inr (ex_loaded, \<lparr>result_time = start_time ?k, decision = INVALIDATED, order = None\<rparr>)"
    by (rule conjunct1)
  from inst have "\<forall>a b c sz.
          date_of (start_time a) = ymd2ord 2024 1 2 \<and> date_of (start_time b) = ymd2ord 2024 1 2
          \<and> date_of (start_time c) = ymd2ord 2024 1 2
          \<and> 2050 < close a \<and> 2050 < close b
          \<and> calc_size ?s (open_price c) (min (low a) (low b)) = Inr (Fin sz) \<and> 0 < sz
          \<longrightarrow> (\<exists>s' r1 r2 r3.
                on_candles ex_levels ex_loaded [a, b, c] = Inr (s', [r1, r2, r3])
                \<and> decision r1 = C1 \<and> decision r2 = C2 \<and> decision r3 = SIGNAL
                \<and> traded_today s')"
    by blast
  then have step: "date_of (start_time a) = ymd2ord 2024 1 2 \<Longrightarrow>
      date_of (start_time b) = ymd2ord 2024 1 2 \<Longrightarrow>
      date_of (start_time c) = ymd2ord 2024 1 2 \<Longrightarrow>
      2050 < close a \<Longrightarrow> 2050 < close b \<Longrightarrow>
      calc_size ?s (open_price c) (min (low a) (low b)) = Inr (Fin sz) \<Longrightarrow> 0 < sz \<Longrightarrow>
      \<exists>s' r1 r2 r3.
                on_candles ex_levels ex_loaded [a, b, c] = Inr (s', [r1, r2, r3])
                \<and> decision r1 = C1 \<and> decision r2 = C2 \<and> decision r3 = SIGNAL
                \<and> traded_today s'" for a b c sz
    by blast
  have pos: "(0::real) < 3602879701896397 / 18014398509481984" by simp
  have b: "\<exists>s' r1 r2 r3.
        on_candles ex_levels ex_loaded [ex_c1, ex_c2, ex_c3] = Inr (s', [r1, r2, r3])
        \<and> decision r1 = C1 \<and> decision r2 = C2 \<and> decision r3 = SIGNAL \<and> traded_today s'"
    by (rule step [OF dates closes sz pos])
  show ?thesis using h1 h8 a h10 sz b by blast
qed

section \<open>Properties of the candle aggregator\<close>

subsection \<open>Datetime arithmetic\<close>

lemma divmod_step:
  fixes q r N :: int
  assumes "0 \<le> r" and "r < N"
  shows "(q * N + r) div N = q" and "(q * N + r) mod N = r"
  using assms by (simp_all add: div_pos_pos_trivial mod_pos_pos_trivial)

lemma dt_of_micros_inverse:
  assumes "wf_datetime t"
  shows "dt_of_micros (dt_micros t) = t"
proof -
  obtain d h m s u where t: "t = \<lparr>day_ordinal = d, hour = h, minute = m, second = s, microsecond = u\<rparr>"
    by (cases t) auto
  from assms t have b: "h < 24" "m < 60" "s < 60" "u < 1000000"
    by (simp_all add: wf_datetime_def)
  define n3 where "n3 = d * 24 + int h"
  define n2 where "n2 = n3 * 60 + int m"
  define n1 where "n1 = n2 * 60 + int s"
  define n where "n = n1 * 1000000 + int u"
  have nn: "dt_micros t = n"
    by (simp add: t dt_micros_def n_def n1_def n2_def n3_def)
  have u: "n mod 1000000 = int u" and q1: "n div 1000000 = n1"
    unfolding n_def using b(4) by (simp_all add: divmod_step)
  have s: "n1 mod 60 = int s" and q2: "n1 div 60 = n2"
    unfolding n1_def using b(3) by (simp_all add: divmod_step)
  have m: "n2 mod 60 = int m" and q3: "n2 div 60 = n3"
    unfolding n2_def using b(2) by (simp_all add: divmod_step)
  have h: "n3 mod 24 = int h" and q4: "n3 div 24 = d"
    unfolding n3_def using b(1) by (simp_all add: divmod_step)
  have d2: "n div 60000000 = n2"
    using zdiv_zmult2_eq [of 60 n 1000000] by (simp add: q1 q2)
  have d3: "n div 3600000000 = n3"
    using zdiv_zmult2_eq [of 60 n 60000000] by (simp add: d2 q3)
  have d4: "n div 86400000000 = d"
    using zdiv_zmult2_eq [of 24 n 3600000000] by (simp add: d3 q4)
  show ?thesis
    unfolding nn unfolding dt_of_micros_def t
    by (simp add: u q1 s d2 m d3 h d4)
qed

lemma floor_minutes:
  fixes D :: int and m s u k :: nat
  assumes "k dvd 60" and "0 < k" and "s < 60" and "u < 1000000"
  defines "n \<equiv> ((D * 60 + int m) * 60 + int s) * 1000000 + int u"
  shows "n - n mod (int (60 * k) * 1000000) = ((D * 60 + int (m - m mod k)) * 60) * 1000000"
    and "n mod (int (60 * k) * 1000000) = int (m mod k) * 60000000 + int s * 1000000 + int u"
proof -
  from assms(1) obtain c where c: "60 = k * c" unfolding dvd_def by blast
  then have ci: "int k * int c = 60" by (metis of_nat_mult of_nat_numeral)
  let ?N = "int (60 * k) * 1000000"
  let ?rem = "int (m mod k) * 60000000 + int s * 1000000 + int u"
  have md: "int m = int (m div k) * int k + int (m mod k)"
    by (metis div_mult_mod_eq of_nat_add of_nat_mult)
  have "D * 60 = D * int c * int k" using ci by (simp add: mult.assoc mult.commute)
  then have total: "n = (D * int c + int (m div k)) * ?N + ?rem"
    unfolding n_def by (subst md) (simp add: algebra_simps)
  have "m mod k < k" using assms(2) by simp
  then have "int (m mod k) + 1 \<le> int k" by simp
  then have "(int (m mod k) + 1) * 60000000 \<le> int k * 60000000" by (rule mult_right_mono) simp
  then have lt: "?rem < ?N" using assms(3,4) by (simp add: algebra_simps)
  have ge: "0 \<le> ?rem" by simp
  have "n mod ?N = ?rem mod ?N" unfolding total by (simp only: mod_mult_self3)
  also have "\<dots> = ?rem" using ge lt by (rule mod_pos_pos_trivial)
  finally show r: "n mod ?N = ?rem" .
  have "m mod k \<le> m" by simp
  then have "int (m - m mod k) = int m - int (m mod k)" by simp
  then show "n - n mod ?N = ((D * 60 + int (m - m mod k)) * 60) * 1000000"
    unfolding r unfolding n_def by (simp add: algebra_simps)
qed

lemma calc_start_floor:
  assumes res: "resolution_seconds agg = Some (60 * k)" and k: "k dvd 60" "0 < k"
    and wf: "wf_datetime ts"
  defines "b \<equiv> ts\<lparr>second := 0, microsecond := 0, minute := minute ts - minute ts mod k\<rparr>"
  defines "N \<equiv> int (60 * k) * 1000000"
  shows "calculate_candle_start agg ts = Inr b"
    and "wf_datetime b"
    and "dt_micros b = dt_micros ts - dt_micros ts mod N"
    and "floor_to_resolution (60 * k) ts = b"
proof -
  show c: "calculate_candle_start agg ts = Inr b"
    using res k(2) by (simp add: calculate_candle_start_def b_def Let_def)
  have "minute ts - minute ts mod k \<le> minute ts" by simp
  moreover from wf have "minute ts < 60" by (simp add: wf_datetime_def)
  ultimately have "minute ts - minute ts mod k < 60" by (rule le_less_trans)
  then show w: "wf_datetime b" using wf by (simp add: wf_datetime_def b_def)
  from wf have "second ts < 60" "microsecond ts < 1000000" by (simp_all add: wf_datetime_def)
  from floor_minutes(1) [OF k this, of "day_ordinal ts * 24 + int (hour ts)" "minute ts"]
  show m: "dt_micros b = dt_micros ts - dt_micros ts mod N"
    by (simp add: dt_micros_def b_def N_def)
  show "floor_to_resolution (60 * k) ts = b"
    unfolding floor_to_resolution_def N_def [symmetric] m [symmetric]
    using w by (rule dt_of_micros_inverse)
qed

lemma largest_multiple:
  fixes n N :: int
  assumes "0 < N"
  shows "N dvd n - n mod N" and "n - n mod N \<le> n" and "n < n - n mod N + N"
    and "\<forall>x. N dvd x \<and> x \<le> n \<longrightarrow> x \<le> n - n mod N"
proof -
  show "N dvd n - n mod N" by (simp add: dvd_minus_mod)
  show "n - n mod N \<le> n" using assms by simp
  show "n < n - n mod N + N" using assms by simp
  show "\<forall>x. N dvd x \<and> x \<le> n \<longrightarrow> x \<le> n - n mod N"
  proof (intro allI impI)
    fix x assume x: "N dvd x \<and> x \<le> n"
    then obtain j where j: "x = N * j" by (auto elim: dvdE)
    have "j \<le> n div N"
      using x assms unfolding j by (metis mult.commute zdiv_mono1 nonzero_mult_div_cancel_right less_irrefl)
    then have "N * j \<le> N * (n div N)" using assms by simp
    then show "x \<le> n - n mod N" unfolding j by (simp add: minus_mod_eq_mult_div)
  qed
qed

lemma sub_hour_resolutions:
  assumes "name \<in> set [''MINUTE'', ''MINUTE_5'', ''MINUTE_15'', ''MINUTE_30'', ''HOUR_1'']"
  shows "\<exists>k. get_resolution_second name = Some (60 * k) \<and> k dvd 60 \<and> 0 < k \<and> 60 * k dvd 86400"
proof -
  have "get_resolution_second ''MINUTE'' = Some (60 * 1)"
    "get_resolution_second ''MINUTE_5'' = Some (60 * 5)"
    "get_resolution_second ''MINUTE_15'' = Some (60 * 15)"
    "get_resolution_second ''MINUTE_30'' = Some (60 * 30)"
    "get_resolution_second ''HOUR_1'' = Some (60 * 60)"
    by (simp_all add: get_resolution_second_def)
  moreover have "(1::nat) dvd 60" "(5::nat) dvd 60" "(15::nat) dvd 60" "(30::nat) dvd 60"
    "(60::nat) dvd 60" "(60 * 1 ::nat) dvd 86400" "(60 * 5 ::nat) dvd 86400"
    "(60 * 15 ::nat) dvd 86400" "(60 * 30 ::nat) dvd 86400" "(60 * 60 ::nat) dvd 86400"
    by simp_all
  ultimately show ?thesis using assms by auto
qed

subsection \<open>Bucket start\<close>

text \<open>
  Claim C3, as the code has it. For the resolutions up to one hour (\<open>MINUTE\<close>, \<open>MINUTE_5\<close>,
  \<open>MINUTE_15\<close>, \<open>MINUTE_30\<close>, \<open>HOUR_1\<close>) and every well-formed timestamp the computed
  candle start is the largest multiple of the resolution that is not after the timestamp;
  every supported resolution but \<open>WEEK_1\<close> divides a day.
\<close>

theorem bucket_floor_sub_hour:
  assumes "name \<in> set [''MINUTE'', ''MINUTE_5'', ''MINUTE_15'', ''MINUTE_30'', ''HOUR_1'']"
    and "resolution_seconds agg = get_resolution_second name"
    and "wf_datetime ts"
  shows "(\<exists>r b. get_resolution_second name = Some r
            \<and> calculate_candle_start agg ts = Inr b
            \<and> b = floor_to_resolution r ts
            \<and> wf_datetime b
            \<and> int r * 1000000 dvd dt_micros b
            \<and> dt_micros b \<le> dt_micros ts
            \<and> dt_micros ts < dt_micros b + int r * 1000000
            \<and> (\<forall>x. int r * 1000000 dvd x \<and> x \<le> dt_micros ts \<longrightarrow> x \<le> dt_micros b)
            \<and> r dvd 86400)
     \<and> (\<forall>nm \<in> set [''MINUTE'', ''MINUTE_5'', ''MINUTE_15'', ''MINUTE_30'', ''HOUR_1'',
                      ''HOUR_4'', ''DAY_1''].
           \<exists>r. get_resolution_second nm = Some r \<and> r dvd 86400)"
proof -
  from sub_hour_resolutions [OF assms(1)] obtain k
    where k: "get_resolution_second name = Some (60 * k)" "k dvd 60" "0 < k" "60 * k dvd 86400"
    by blast
  let ?N = "int (60 * k) * 1000000"
  let ?b = "ts\<lparr>second := 0, microsecond := 0, minute := minute ts - minute ts mod k\<rparr>"
  have res: "resolution_seconds agg = Some (60 * k)" using assms(2) k(1) by simp
  note c = calc_start_floor [OF res k(2,3) assms(3)]
  have N: "0 < ?N" using k(3) by simp
  note l = largest_multiple [OF N, of "dt_micros ts", folded c(3)]
  have first: "\<exists>r b. get_resolution_second name = Some r
            \<and> calculate_candle_start agg ts = Inr b
            \<and> b = floor_to_resolution r ts
            \<and> wf_datetime b
            \<and> int r * 1000000 dvd dt_micros b
            \<and> dt_micros b \<le> dt_micros ts
            \<and> dt_micros ts < dt_micros b + int r * 1000000
            \<and> (\<forall>x. int r * 1000000 dvd x \<and> x \<le> dt_micros ts \<longrightarrow> x \<le> dt_micros b)
            \<and> r dvd 86400"
    using k(1,4) c(1,2,4) l by (intro exI [of _ "60 * k"] exI [of _ ?b]) simp
  have second: "\<forall>nm \<in> set [''MINUTE'', ''MINUTE_5'', ''MINUTE_15'', ''MINUTE_30'', ''HOUR_1'',
                      ''HOUR_4'', ''DAY_1''].
           \<exists>r. get_resolution_second nm = Some r \<and> r dvd 86400"
    by (simp add: get_resolution_second_def)
  from first second show ?thesis by (rule conjI)
qed

text \<open>At 15 minutes, 05:44:12.000005 falls into the bucket of 05:30.\<close>

theorem bucket_floor_sub_hour_witness:
  "''MINUTE_15'' \<in> set [''MINUTE'', ''MINUTE_5'', ''MINUTE_15'', ''MINUTE_30'', ''HOUR_1'']
   \<and> resolution_seconds (init_aggregator ''MINUTE_15'') = get_resolution_second ''MINUTE_15''
   \<and> wf_datetime \<lparr>day_ordinal = 738887, hour = 5, minute = 44, second = 12, microsecond = 5\<rparr>
   \<and> get_resolution_second ''MINUTE_15'' = Some 900
   \<and> calculate_candle_start (init_aggregator ''MINUTE_15'')
        \<lparr>day_ordinal = 738887, hour = 5, minute = 44, second = 12, microsecond = 5\<rparr> =
       Inr \<lparr>day_ordinal = 738887, hour = 5, minute = 30, second = 0, microsecond = 0\<rparr>
   \<and> floor_to_resolution 900
        \<lparr>day_ordinal = 738887, hour = 5, minute = 44, second = 12, microsecond = 5\<rparr> =
       \<lparr>day_ordinal = 738887, hour = 5, minute = 30, second = 0, microsecond = 0\<rparr>"
proof -
  let ?ts = "\<lparr>day_ordinal = 738887, hour = 5, minute = 44, second = 12, microsecond = 5\<rparr>"
  have a: "''MINUTE_15'' \<in> set [''MINUTE'', ''MINUTE_5'', ''MINUTE_15'', ''MINUTE_30'', ''HOUR_1'']"
    by simp
  have b: "resolution_seconds (init_aggregator ''MINUTE_15'') = get_resolution_second ''MINUTE_15''"
    by (simp add: init_aggregator_def)
  have c: "wf_datetime ?ts" by (simp add: wf_datetime_def)
  have r: "get_resolution_second ''MINUTE_15'' = Some 900"
    by (simp add: get_resolution_second_def)
  have s: "calculate_candle_start (init_aggregator ''MINUTE_15'') ?ts =
       Inr \<lparr>day_ordinal = 738887, hour = 5, minute = 30, second = 0, microsecond = 0\<rparr>"
    by (simp add: calculate_candle_start_def init_aggregator_def r)
  from bucket_floor_sub_hour [OF a b c]
  have "floor_to_resolution 900 ?ts =
       \<lparr>day_ordinal = 738887, hour = 5, minute = 30, second = 0, microsecond = 0\<rparr>"
    unfolding r s by auto
  with a b c r s show ?thesis by simp
qed

text \<open>
  At \<open>HOUR_4\<close> the computed start of 05:30 is 05:00, which is not a multiple of four
  hours (the floor is 04:00): only the minute field is truncated. \<open>WEEK_1\<close> is 604800
  seconds, which does not divide the 86400 seconds of a day.
\<close>

theorem bucket_floor_counterexample:
  "get_resolution_second ''HOUR_4'' = Some 14400
   \<and> calculate_candle_start (init_aggregator ''HOUR_4'')
        \<lparr>day_ordinal = 738887, hour = 5, minute = 30, second = 0, microsecond = 0\<rparr> =
       Inr \<lparr>day_ordinal = 738887, hour = 5, minute = 0, second = 0, microsecond = 0\<rparr>
   \<and> \<not> int 14400 * 1000000 dvd
         dt_micros \<lparr>day_ordinal = 738887, hour = 5, minute = 0, second = 0, microsecond = 0\<rparr>
   \<and> floor_to_resolution 14400
        \<lparr>day_ordinal = 738887, hour = 5, minute = 30, second = 0, microsecond = 0\<rparr> =
       \<lparr>day_ordinal = 738887, hour = 4, minute = 0, second = 0, microsecond = 0\<rparr>
   \<and> get_resolution_second ''WEEK_1'' = Some 604800
   \<and> \<not> (604800 :: nat) dvd 86400"
  by (simp add: get_resolution_second_def calculate_candle_start_def init_aggregator_def
      dt_micros_def floor_to_resolution_def dt_of_micros_def)

subsection \<open>One call of \<open>process_tick\<close>\<close>




lemma calc_tracking [simp]:
  "calculate_candle_start
     (agg\<lparr>last_price := a, last_tick := b, tick_count := c, last_tick_time := d\<rparr>) ts =
   calculate_candle_start agg ts"
  by (simp add: calculate_candle_start_def)

lemma agg_inv_init: "agg_inv (init_aggregator name)"
  by (simp add: agg_inv_def init_aggregator_def)

lemma agg_inv_process_tick:
  assumes "agg_inv agg" and "process_tick now agg tk = Inr (agg', ret)"
  shows "agg_inv agg'"
  using assms
  by (auto simp: agg_inv_def process_tick_def close_candle_def start_new_candle_def Let_def
      split: sum.splits option.splits if_splits)


lemma process_tick_rollover:
  assumes "candle_data agg e = Some cd" and "current_candle_start agg e = Some cur"
    and "tick_epic tk = e" and "calculate_candle_start agg (timestamp tk) = Inr b"
    and "resolution_seconds agg = Some r" and "dt_less cur b"
  shows "\<exists>agg'. process_tick now agg tk =
       Inr (agg', Some \<lparr>open_price = open_price cd, high = high cd, low = low cd,
          close = close cd, volume = volume cd, start_time = start_time cd,
          last_update = last_update cd, candle_epic = e,
          end_time = add_seconds cur (int r),
          closed_at = (case received_at tk of Some t \<Rightarrow> t | None \<Rightarrow> now)\<rparr>)
     \<and> candle_data agg' e = Some \<lparr>open_price = bid tk, high = bid tk, low = bid tk,
          close = bid tk, volume = 1, start_time = b, last_update = None\<rparr>
     \<and> current_candle_start agg' e = Some b
     \<and> resolution_seconds agg' = resolution_seconds agg"
  using assms
  by (simp add: process_tick_def close_candle_def start_new_candle_def Let_def)

lemma process_tick_fold:
  assumes "candle_data agg e = Some cd" and "current_candle_start agg e = Some cur"
    and "tick_epic tk = e" and "calculate_candle_start agg (timestamp tk) = Inr b"
    and "\<not> dt_less cur b"
  shows "\<exists>agg'. process_tick now agg tk = Inr (agg', None)
     \<and> candle_data agg' e = Some (cd\<lparr>high := max (high cd) (bid tk),
          low := min (low cd) (bid tk), close := bid tk, volume := volume cd + 1,
          last_update := Some (timestamp tk)\<rparr>)
     \<and> current_candle_start agg' e = Some cur
     \<and> resolution_seconds agg' = resolution_seconds agg"
  using assms
  by (simp add: process_tick_def Let_def)

subsection \<open>Ticks of one bucket\<close>







lemmas agg_ex_defs = ex_tick_def ex_stamp_def ex_now_def ex_agg_def init_aggregator_def
  get_resolution_second_def

lemma ex_agg_reached:
  "process_tick ex_now (init_aggregator ''MINUTE'') (ex_tick 9 0 5 100) = Inr (ex_agg, None)"
  by (simp add: process_tick_def calculate_candle_start_def start_new_candle_def Let_def
      agg_ex_defs)




subsection \<open>Rollover\<close>

lemma minute_on_boundary:
  fixes n3 :: int and m k :: nat
  assumes "k dvd 60 \<or> 60 dvd k" and "int k dvd n3 * 60 + int m" and "m < 60"
  shows "m mod k = 0"
  using assms(1)
proof
  assume "k dvd 60"
  then have "int k dvd n3 * 60" by (metis dvd_mult int_dvd_int_iff of_nat_numeral)
  with assms(2) have "int k dvd int m" by (simp add: dvd_add_right_iff)
  then show ?thesis by (simp add: int_dvd_int_iff)
next
  assume "60 dvd k"
  then have "(60::int) dvd int k" by (metis int_dvd_int_iff of_nat_numeral)
  then have "(60::int) dvd n3 * 60 + int m" using assms(2) by (rule dvd_trans)
  then have "(60::int) dvd int m" by (simp add: dvd_add_right_iff)
  then have "60 dvd m" by presburger
  with assms(3) have "m = 0" by (auto elim: dvdE)
  then show ?thesis by simp
qed

lemma boundary_tick_bucket:
  assumes res: "resolution_seconds agg = Some r"
    and r: "r \<in> set [60, 300, 900, 1800, 3600, 14400, 86400, 604800]"
    and wf: "wf_datetime ts" and dvd: "int r * 1000000 dvd dt_micros ts"
  shows "calculate_candle_start agg ts = Inr ts"
proof -
  from r have r60: "60 \<le> r" "60 dvd r" and k: "r div 60 dvd 60 \<or> 60 dvd r div 60"
    by auto
  from wf have b: "minute ts < 60" "second ts < 60" "microsecond ts < 1000000"
    by (simp_all add: wf_datetime_def)
  define n3 where "n3 = day_ordinal ts * 24 + int (hour ts)"
  define n2 where "n2 = n3 * 60 + int (minute ts)"
  define n1 where "n1 = n2 * 60 + int (second ts)"
  have n: "dt_micros ts = n1 * 1000000 + int (microsecond ts)"
    by (simp add: dt_micros_def n1_def n2_def n3_def)
  have "(1000000::int) dvd int r * 1000000" by simp
  then have "(1000000::int) dvd dt_micros ts" using dvd by (rule dvd_trans)
  then have "(1000000::int) dvd int (microsecond ts)" unfolding n by (simp add: dvd_add_right_iff)
  then have "1000000 dvd microsecond ts" by presburger
  with b(3) have u: "microsecond ts = 0" by (auto elim: dvdE)
  from dvd have r1: "int r dvd n1" unfolding n u by simp
  from r60(2) have "(60::int) dvd int r" by (metis int_dvd_int_iff of_nat_numeral)
  then have "(60::int) dvd n1" using r1 by (rule dvd_trans)
  then have "(60::int) dvd int (second ts)" unfolding n1_def by (simp add: dvd_add_right_iff)
  then have "60 dvd second ts" by presburger
  with b(2) have s: "second ts = 0" by (auto elim: dvdE)
  from r60(2) have rk: "r = (r div 60) * 60" by simp
  have "int (r div 60) * 60 dvd n2 * 60"
    using r1 unfolding n1_def s by (subst (asm) rk) simp
  then have "int (r div 60) dvd n2" by simp
  then have "minute ts mod (r div 60) = 0"
    unfolding n2_def using k b(1) by (intro minute_on_boundary [of _ n3]) 
  then show ?thesis
    using res r60(1) u s by (simp add: calculate_candle_start_def Let_def)
qed

text \<open>
  Claim C5. With a candle in progress for the symbol, \<open>process_tick\<close> returns a closed
  candle exactly when the tick's bucket start is strictly after the candle's start time.
  The closed candle is the in-progress one with \<open>end_time\<close> its start time plus the
  resolution and \<open>closed_at\<close> the tick's receipt time, and a new candle starts at the
  bucket. Otherwise, bucket equal or behind, the tick is folded into the candle and none
  is returned. A timestamp on a multiple of a supported resolution is its own bucket
  start.
\<close>

theorem rollover_condition:
  assumes "candle_data agg e = Some cd"
    and "current_candle_start agg e = Some (start_time cd)"
    and "tick_epic tk = e"
    and "calculate_candle_start agg (timestamp tk) = Inr b"
    and "resolution_seconds agg = Some r"
  shows "(\<exists>agg' ret. process_tick now agg tk = Inr (agg', ret)
            \<and> (ret \<noteq> None \<longleftrightarrow> dt_less (start_time cd) b))
     \<and> (dt_less (start_time cd) b \<longrightarrow>
          (\<exists>agg'. process_tick now agg tk =
              Inr (agg', Some \<lparr>open_price = open_price cd, high = high cd, low = low cd,
                 close = close cd, volume = volume cd, start_time = start_time cd,
                 last_update = last_update cd, candle_epic = e,
                 end_time = add_seconds (start_time cd) (int r),
                 closed_at = (case received_at tk of Some t \<Rightarrow> t | None \<Rightarrow> now)\<rparr>)
            \<and> candle_data agg' e = Some \<lparr>open_price = bid tk, high = bid tk, low = bid tk,
                 close = bid tk, volume = 1, start_time = b, last_update = None\<rparr>
            \<and> current_candle_start agg' e = Some b))
     \<and> (\<not> dt_less (start_time cd) b \<longrightarrow>
          (\<exists>agg'. process_tick now agg tk = Inr (agg', None)
            \<and> candle_data agg' e = Some (cd\<lparr>high := max (high cd) (bid tk),
                 low := min (low cd) (bid tk), close := bid tk, volume := volume cd + 1,
                 last_update := Some (timestamp tk)\<rparr>)
            \<and> current_candle_start agg' e = Some (start_time cd)))
     \<and> (r \<in> set [60, 300, 900, 1800, 3600, 14400, 86400, 604800]
          \<and> wf_datetime (timestamp tk) \<and> int r * 1000000 dvd dt_micros (timestamp tk)
          \<longrightarrow> b = timestamp tk)"
proof -
  have p1: "\<exists>agg' ret. process_tick now agg tk = Inr (agg', ret)
            \<and> (ret \<noteq> None \<longleftrightarrow> dt_less (start_time cd) b)"
  proof (cases "dt_less (start_time cd) b")
    case True
    with process_tick_rollover [OF assms, of now] show ?thesis by auto
  next
    case False
    with process_tick_fold [OF assms(1,2,3,4), of now] show ?thesis by auto
  qed
  have p2: "dt_less (start_time cd) b \<longrightarrow>
          (\<exists>agg'. process_tick now agg tk =
              Inr (agg', Some \<lparr>open_price = open_price cd, high = high cd, low = low cd,
                 close = close cd, volume = volume cd, start_time = start_time cd,
                 last_update = last_update cd, candle_epic = e,
                 end_time = add_seconds (start_time cd) (int r),
                 closed_at = (case received_at tk of Some t \<Rightarrow> t | None \<Rightarrow> now)\<rparr>)
            \<and> candle_data agg' e = Some \<lparr>open_price = bid tk, high = bid tk, low = bid tk,
                 close = bid tk, volume = 1, start_time = b, last_update = None\<rparr>
            \<and> current_candle_start agg' e = Some b)"
    using process_tick_rollover [OF assms, of now] by blast
  have p3: "\<not> dt_less (start_time cd) b \<longrightarrow>
          (\<exists>agg'. process_tick now agg tk = Inr (agg', None)
            \<and> candle_data agg' e = Some (cd\<lparr>high := max (high cd) (bid tk),
                 low := min (low cd) (bid tk), close := bid tk, volume := volume cd + 1,
                 last_update := Some (timestamp tk)\<rparr>)
            \<and> current_candle_start agg' e = Some (start_time cd))"
    using process_tick_fold [OF assms(1,2,3,4), of now] by blast
  have p4: "r \<in> set [60, 300, 900, 1800, 3600, 14400, 86400, 604800]
          \<and> wf_datetime (timestamp tk) \<and> int r * 1000000 dvd dt_micros (timestamp tk)
          \<longrightarrow> b = timestamp tk"
    using boundary_tick_bucket [OF assms(5), of "timestamp tk"] assms(4) by auto
  from p1 p2 p3 p4 show ?thesis by (intro conjI)
qed

text \<open>
  A tick at 09:01:00 exactly closes the candle of 09:00 with \<open>end_time\<close> 09:01:00; a late
  tick of 08:59:30 is folded into the candle of 09:00.
\<close>

theorem rollover_condition_witness:
  "candle_data ex_agg ''GOLD'' =
     Some \<lparr>open_price = 100, high = 100, low = 100, close = 100, volume = 1,
           start_time = ex_stamp 9 0 0, last_update = None\<rparr>
   \<and> current_candle_start ex_agg ''GOLD'' = Some (ex_stamp 9 0 0)
   \<and> resolution_seconds ex_agg = Some 60
   \<and> calculate_candle_start ex_agg (timestamp (ex_tick 9 1 0 101)) = Inr (ex_stamp 9 1 0)
   \<and> int 60 * 1000000 dvd dt_micros (timestamp (ex_tick 9 1 0 101))
   \<and> dt_less (ex_stamp 9 0 0) (ex_stamp 9 1 0)
   \<and> returned (process_tick ex_now ex_agg (ex_tick 9 1 0 101)) =
       Inr (Some \<lparr>open_price = 100, high = 100, low = 100, close = 100, volume = 1,
                  start_time = ex_stamp 9 0 0, last_update = None, candle_epic = ''GOLD'',
                  end_time = ex_stamp 9 1 0,
                  closed_at = (ex_stamp 9 1 0)\<lparr>microsecond := 250000\<rparr>\<rparr>)
   \<and> calculate_candle_start ex_agg (timestamp (ex_tick 8 59 30 97)) = Inr (ex_stamp 8 59 0)
   \<and> \<not> dt_less (ex_stamp 9 0 0) (ex_stamp 8 59 0)
   \<and> returned (process_tick ex_now ex_agg (ex_tick 8 59 30 97)) = Inr None
   \<and> in_progress ''GOLD'' (process_tick ex_now ex_agg (ex_tick 8 59 30 97)) =
       Some \<lparr>open_price = 100, high = 100, low = 97, close = 97, volume = 2,
             start_time = ex_stamp 9 0 0, last_update = Some (ex_stamp 8 59 30)\<rparr>"
proof -
  let ?cd = "\<lparr>open_price = 100, high = 100, low = 100, close = 100, volume = 1,
           start_time = ex_stamp 9 0 0, last_update = None\<rparr> :: candle"
  have cd: "candle_data ex_agg ''GOLD'' = Some ?cd"
    and cur: "current_candle_start ex_agg ''GOLD'' = Some (start_time ?cd)"
    and cur': "current_candle_start ex_agg ''GOLD'' = Some (ex_stamp 9 0 0)"
    and res: "resolution_seconds ex_agg = Some 60"
    by (simp_all add: ex_agg_def init_aggregator_def get_resolution_second_def)
  have e: "tick_epic (ex_tick 9 1 0 101) = ''GOLD''" "tick_epic (ex_tick 8 59 30 97) = ''GOLD''"
    by (simp_all add: ex_tick_def)
  have b1: "calculate_candle_start ex_agg (timestamp (ex_tick 9 1 0 101)) = Inr (ex_stamp 9 1 0)"
    and b2: "calculate_candle_start ex_agg (timestamp (ex_tick 8 59 30 97)) = Inr (ex_stamp 8 59 0)"
    by (simp_all add: calculate_candle_start_def agg_ex_defs)
  have dv: "int 60 * 1000000 dvd dt_micros (timestamp (ex_tick 9 1 0 101))"
    by (simp add: dt_micros_def ex_tick_def ex_stamp_def ymd2ord_def days_before_year_def
        days_before_month_def is_leap_def)
  have l1: "dt_less (ex_stamp 9 0 0) (ex_stamp 9 1 0)"
    and l2: "\<not> dt_less (ex_stamp 9 0 0) (ex_stamp 8 59 0)"
    by (simp_all add: dt_less_def ex_stamp_def)
  have en: "add_seconds (ex_stamp 9 0 0) (int 60) = ex_stamp 9 1 0"
    by (simp add: add_seconds_def dt_micros_def dt_of_micros_def ex_stamp_def ymd2ord_def
        days_before_year_def days_before_month_def is_leap_def)
  have r1: "returned (process_tick ex_now ex_agg (ex_tick 9 1 0 101)) =
       Inr (Some \<lparr>open_price = 100, high = 100, low = 100, close = 100, volume = 1,
                  start_time = ex_stamp 9 0 0, last_update = None, candle_epic = ''GOLD'',
                  end_time = ex_stamp 9 1 0,
                  closed_at = (ex_stamp 9 1 0)\<lparr>microsecond := 250000\<rparr>\<rparr>)"
    using rollover_condition [OF cd cur e(1) b1 res, of ex_now] l1 en
    by (auto simp: returned_def ex_tick_def)
  have r2: "returned (process_tick ex_now ex_agg (ex_tick 8 59 30 97)) = Inr None"
    and r3: "in_progress ''GOLD'' (process_tick ex_now ex_agg (ex_tick 8 59 30 97)) =
       Some \<lparr>open_price = 100, high = 100, low = 97, close = 97, volume = 2,
             start_time = ex_stamp 9 0 0, last_update = Some (ex_stamp 8 59 30)\<rparr>"
    using rollover_condition [OF cd cur e(2) b2 res, of ex_now] l2
    by (auto simp: returned_def in_progress_def ex_tick_def)
  show ?thesis using cd cur' res b1 dv l1 r1 b2 l2 r2 r3 by (intro conjI)
qed


section \<open>Properties of the session handling\<close>

text \<open>
  Claim C9, as the code has it. The session is valid exactly when both tokens are present
  and either no expiry is stored or the current time is strictly before the stored expiry
  less five minutes. Building the request headers and the websocket headers starts with
  this check: a valid session is used as it is, and an invalid one is renewed first, so
  that a failed login is what the caller gets and a successful one supplies the tokens
  of the headers.
\<close>

theorem session_validity:
  "(is_session_valid now c \<longleftrightarrow>
      \<not> is_falsy (cst c) \<and> \<not> is_falsy (security_token c)
      \<and> (case session_expiry c of
           None \<Rightarrow> True
         | Some expiry \<Rightarrow> dt_less now (add_seconds expiry (- (5 * 60)))))
   \<and> (is_session_valid now c \<longrightarrow>
        ensure_valid_session now resp c = Inr c
        \<and> headers now resp c = Inr (c, session_headers c)
        \<and> get_websocket_headers now resp c = Inr (c, session_headers c))
   \<and> (\<not> is_session_valid now c \<longrightarrow>
        ensure_valid_session now resp c = renew_session now resp c
        \<and> (\<forall>err. resp = Inl err \<longrightarrow>
              headers now resp c = Inl err \<and> get_websocket_headers now resp c = Inl err)
        \<and> (\<forall>t st. resp = Inr (t, st) \<longrightarrow>
              renew_session now resp c =
                Inr (c\<lparr>cst := Some t, security_token := Some st,
                       session_expiry := Some (add_seconds now (23 * 3600))\<rparr>)
              \<and> get_websocket_headers now resp c =
                  Inr (c\<lparr>cst := Some t, security_token := Some st,
                         session_expiry := Some (add_seconds now (23 * 3600))\<rparr>,
                       \<lparr>X_CAP_API_KEY = api_key c, CST = Some t, X_SECURITY_TOKEN = Some st\<rparr>)
              \<and> headers now resp c =
                  (if t = [] \<or> st = [] then Inl RuntimeError
                   else Inr (c\<lparr>cst := Some t, security_token := Some st,
                         session_expiry := Some (add_seconds now (23 * 3600))\<rparr>,
                       \<lparr>X_CAP_API_KEY = api_key c, CST = Some t, X_SECURITY_TOKEN = Some st\<rparr>))))"
proof -
  have v: "is_session_valid now c \<longleftrightarrow>
      \<not> is_falsy (cst c) \<and> \<not> is_falsy (security_token c)
      \<and> (case session_expiry c of
           None \<Rightarrow> True
         | Some expiry \<Rightarrow> dt_less now (add_seconds expiry (- (5 * 60))))"
    by (simp add: is_session_valid_def)
  have ok: "ensure_valid_session now resp c = Inr c
        \<and> headers now resp c = Inr (c, session_headers c)
        \<and> get_websocket_headers now resp c = Inr (c, session_headers c)"
    if "is_session_valid now c"
    using that
    by (auto simp: ensure_valid_session_def headers_def get_websocket_headers_def
        is_session_valid_def split: if_splits)
  have renew: "ensure_valid_session now resp c = renew_session now resp c"
    if "\<not> is_session_valid now c"
    using that by (simp add: ensure_valid_session_def)
  have failed: "headers now resp c = Inl err \<and> get_websocket_headers now resp c = Inl err"
    if "\<not> is_session_valid now c" "resp = Inl err" for err
    using that
    by (simp add: headers_def get_websocket_headers_def ensure_valid_session_def
        renew_session_def login_def)
  have renewed: "renew_session now resp c =
                Inr (c\<lparr>cst := Some t, security_token := Some st,
                       session_expiry := Some (add_seconds now (23 * 3600))\<rparr>)
              \<and> get_websocket_headers now resp c =
                  Inr (c\<lparr>cst := Some t, security_token := Some st,
                         session_expiry := Some (add_seconds now (23 * 3600))\<rparr>,
                       \<lparr>X_CAP_API_KEY = api_key c, CST = Some t, X_SECURITY_TOKEN = Some st\<rparr>)
              \<and> headers now resp c =
                  (if t = [] \<or> st = [] then Inl RuntimeError
                   else Inr (c\<lparr>cst := Some t, security_token := Some st,
                         session_expiry := Some (add_seconds now (23 * 3600))\<rparr>,
                       \<lparr>X_CAP_API_KEY = api_key c, CST = Some t, X_SECURITY_TOKEN = Some st\<rparr>))"
    if "\<not> is_session_valid now c" "resp = Inr (t, st)" for t st
    using that
    by (simp add: headers_def get_websocket_headers_def ensure_valid_session_def
        renew_session_def login_def session_headers_def is_falsy_def)
  from v ok renew failed renewed show ?thesis by blast
qed

text \<open>
  A session expiring at 09:05 is valid at 08:00 and is renewed at 09:02; a client that
  never logged in is renewed as well.
\<close>

theorem session_validity_witness:
  "is_session_valid (ex_stamp 8 0 0) ex_session
   \<and> get_websocket_headers (ex_stamp 8 0 0) (Inl LoginFailed) ex_session =
       Inr (ex_session,
         \<lparr>X_CAP_API_KEY = ''key'', CST = Some ''cst-1'', X_SECURITY_TOKEN = Some ''tok-1''\<rparr>)
   \<and> \<not> is_session_valid ex_now ex_session
   \<and> headers ex_now (Inl LoginFailed) ex_session = Inl LoginFailed
   \<and> get_websocket_headers ex_now (Inr (''cst-2'', ''tok-2'')) ex_session =
       Inr (ex_session\<lparr>cst := Some ''cst-2'', security_token := Some ''tok-2'',
              session_expiry := Some (add_seconds ex_now (23 * 3600))\<rparr>,
         \<lparr>X_CAP_API_KEY = ''key'', CST = Some ''cst-2'', X_SECURITY_TOKEN = Some ''tok-2''\<rparr>)
   \<and> \<not> is_session_valid ex_now ex_client
   \<and> headers ex_now (Inr (''cst-2'', ''tok-2'')) ex_client =
       Inr (ex_client\<lparr>cst := Some ''cst-2'', security_token := Some ''tok-2'',
              session_expiry := Some (add_seconds ex_now (23 * 3600))\<rparr>,
         \<lparr>X_CAP_API_KEY = ''key'', CST = Some ''cst-2'', X_SECURITY_TOKEN = Some ''tok-2''\<rparr>)"
proof -
  have v1: "is_session_valid (ex_stamp 8 0 0) ex_session"
    and v2: "\<not> is_session_valid ex_now ex_session"
    and v3: "\<not> is_session_valid ex_now ex_client"
    by (simp_all add: is_session_valid_def is_falsy_def ex_session_def ex_no_expiry_def
        ex_client_def ex_now_def ex_stamp_def dt_less_def add_seconds_def dt_micros_def
        dt_of_micros_def ymd2ord_def days_before_year_def days_before_month_def is_leap_def)
  have k: "api_key ex_session = ''key''" "api_key ex_client = ''key''"
    "session_headers ex_session =
       \<lparr>X_CAP_API_KEY = ''key'', CST = Some ''cst-1'', X_SECURITY_TOKEN = Some ''tok-1''\<rparr>"
    by (simp_all add: session_headers_def ex_session_def ex_no_expiry_def ex_client_def)
  note a = session_validity [of "ex_stamp 8 0 0" ex_session "Inl LoginFailed"]
  note b = session_validity [of ex_now ex_session "Inl LoginFailed"]
  note c = session_validity [of ex_now ex_session "Inr (''cst-2'', ''tok-2'')"]
  note d = session_validity [of ex_now ex_client "Inr (''cst-2'', ''tok-2'')"]
  have g1: "get_websocket_headers (ex_stamp 8 0 0) (Inl LoginFailed) ex_session =
       Inr (ex_session,
         \<lparr>X_CAP_API_KEY = ''key'', CST = Some ''cst-1'', X_SECURITY_TOKEN = Some ''tok-1''\<rparr>)"
    using a v1 k by simp
  have g2: "headers ex_now (Inl LoginFailed) ex_session = Inl LoginFailed"
    using b v2 by simp
  have g3: "get_websocket_headers ex_now (Inr (''cst-2'', ''tok-2'')) ex_session =
       Inr (ex_session\<lparr>cst := Some ''cst-2'', security_token := Some ''tok-2'',
              session_expiry := Some (add_seconds ex_now (23 * 3600))\<rparr>,
         \<lparr>X_CAP_API_KEY = ''key'', CST = Some ''cst-2'', X_SECURITY_TOKEN = Some ''tok-2''\<rparr>)"
    using c v2 k by simp
  have g4: "headers ex_now (Inr (''cst-2'', ''tok-2'')) ex_client =
       Inr (ex_client\<lparr>cst := Some ''cst-2'', security_token := Some ''tok-2'',
              session_expiry := Some (add_seconds ex_now (23 * 3600))\<rparr>,
         \<lparr>X_CAP_API_KEY = ''key'', CST = Some ''cst-2'', X_SECURITY_TOKEN = Some ''tok-2''\<rparr>)"
    using d v3 k by simp
  show ?thesis using v1 g1 v2 g2 g3 v3 g4 by (intro conjI)
qed

text \<open>
  Both tokens present and no expiry stored: the check answers true, although there is no
  expiry for the current time to be before.
\<close>

theorem session_validity_counterexample:
  "is_session_valid ex_now ex_no_expiry
   \<and> \<not> session_valid_as_stated ex_now ex_no_expiry
   \<and> cst ex_no_expiry = Some ''cst-1'' \<and> security_token ex_no_expiry = Some ''tok-1''
   \<and> session_expiry ex_no_expiry = None"
  by (simp add: is_session_valid_def session_valid_as_stated_def ex_no_expiry_def
      ex_client_def is_falsy_def)


end
